theory Spec2Isabelle
  imports Main "HOL-Library.Word"
begin

section \<open>The remote API as seen by the program\<close>

text \<open>
  Every operation of \<^verbatim>\<open>src/github/index.ts\<close> is a sequence of \<^verbatim>\<open>fetch\<close> calls against the
  hosting API. The remote is a parameter of the model: a function from a request and the
  remote's state to the outcome of the call and the remote's next state. The program
  side keeps a log of the exchanges it made, so that the order of the calls and what
  each one carried can be stated.

  Text that the code only concatenates and compares (owner, repository, branch, path,
  sha, URLs, status texts) is a \<open>string\<close>. File content, whose encoding matters, is a
  list of UTF-16 code units, as a JavaScript string is.

  Every request carries the same three headers (the token, the accepted media type and
  the user agent), and a request with a body its content type; they play no part in
  what follows and are left out of the requests of the model.
\<close>

type_synonym jsstring = "16 word list"

type_synonym bytes = "8 word list"

datatype http_method = GET | POST | PUT | PATCH

text \<open>\<^verbatim>\<open>FileOperation\<close>: one pending write of a batch.\<close>

record FileOperation =
  fo_path :: string
  fo_content :: jsstring

text \<open>An entry of the \<^verbatim>\<open>tree\<close> array built by \<^verbatim>\<open>createTree\<close>.\<close>

record tree_entry =
  te_path :: string
  te_mode :: string
  te_type :: string
  te_content :: jsstring

text \<open>
  The JSON bodies that the code sends (\<^verbatim>\<open>JSON.stringify\<close> of an object literal), one
  constructor per literal. A field whose value is \<^verbatim>\<open>undefined\<close> is left out by
  \<^verbatim>\<open>JSON.stringify\<close>: it is \<open>None\<close> here.
\<close>

datatype request_body =
    TreeBody "tree_entry list" "string option"
  | CommitBody string string "string list"
  | UpdateRefBody string bool
  | FileBody string jsstring string "string option"

record request =
  rq_method :: http_method
  rq_url :: string
  rq_body :: "request_body option"

text \<open>
  Modelled from the spec: the response schemas (\<^verbatim>\<open>schemas.ts\<close>, imported by
  \<^verbatim>\<open>index.ts\<close>) are not among the sources. A response body is represented by the typed
  value it validates to, with the fields the code reads; \<^verbatim>\<open>Schema.parse\<close> accepts the
  bodies of its own shape and throws on every other. The list of gists is not validated
  by the code: a gist has the fields that \<^verbatim>\<open>searchGists\<close> reads (description, files with
  their name and language, date of update).
\<close>

record GitHubReference =
  ref_name :: string
  object_sha :: string

record GitHubTree =
  tree_sha :: string

record GitHubCommit =
  commit_sha :: string
  commit_message :: string

record file_content =
  fc_name :: string
  fc_path :: string
  fc_sha :: string
  fc_content :: jsstring

record directory_entry =
  de_name :: string
  de_path :: string
  de_sha :: string

datatype GitHubContent = File file_content | Listing "directory_entry list"

record GitHubCreateUpdateFileResponse =
  cu_content_sha :: string
  cu_commit_sha :: string

record gist_file =
  gf_filename :: string
  gf_language :: "string option"

record gist =
  g_id :: string
  g_description :: "string option"
  g_files :: "(string \<times> gist_file) list"
  g_updated_at :: string

datatype json_value =
    ReferenceJson GitHubReference
  | TreeJson GitHubTree
  | CommitJson GitHubCommit
  | ContentJson GitHubContent
  | FileResponseJson GitHubCreateUpdateFileResponse
  | GistArrayJson "gist list"
  | ErrorJson "string option"
  | NullJson
  | OtherJson

text \<open>
  A response: the status line, the two rate-limit headers that \<^verbatim>\<open>listGists\<close> reads, and
  the outcome of \<^verbatim>\<open>response.json()\<close> (\<open>Inl m\<close>: the promise rejects with message \<open>m\<close>).
\<close>

record response =
  status :: nat
  statusText :: string
  ratelimit_remaining :: "string option"
  ratelimit_reset :: "string option"
  json :: "string + json_value"

text \<open>\<^verbatim>\<open>response.ok\<close> of the fetch API: the status is in the range 200 to 299.\<close>

definition ok :: "response \<Rightarrow> bool" where
  "ok r = (200 \<le> status r \<and> status r \<le> 299)"

text \<open>
  The errors the code can raise: \<open>Error m\<close> is \<^verbatim>\<open>new Error(m)\<close>; the others are raised by
  the platform (\<^verbatim>\<open>fetch\<close> rejecting, \<^verbatim>\<open>response.json()\<close> rejecting, \<^verbatim>\<open>Schema.parse\<close>
  throwing, a property read on \<^verbatim>\<open>null\<close>, an invalid date).
\<close>

datatype error =
    Error string
  | FetchError string
  | JsonError string
  | ZodError
  | TypeError string
  | RangeError string

text \<open>
  The remote: \<open>Inl m\<close> is a call that never gets a response (\<^verbatim>\<open>fetch\<close> rejects with
  message \<open>m\<close>). The world is the remote's state and the log of exchanges so far.
\<close>

type_synonym 's api = "request \<Rightarrow> 's \<Rightarrow> (string + response) \<times> 's"

record 's world =
  store :: 's
  exchanges :: "(request \<times> (string + response)) list"

definition fetch :: "'s api \<Rightarrow> request \<Rightarrow> 's world \<Rightarrow> (error + response) \<times> 's world" where
  "fetch api rq w =
     (case api rq (store w) of
        (out, s') \<Rightarrow>
          (case out of Inl m \<Rightarrow> Inl (FetchError m) | Inr r \<Rightarrow> Inr r,
           \<lparr>store = s', exchanges = exchanges w @ [(rq, out)]\<rparr>))"

definition response_json :: "response \<Rightarrow> error + json_value" where
  "response_json r = (case json r of Inl m \<Rightarrow> Inl (JsonError m) | Inr v \<Rightarrow> Inr v)"

definition GitHubReferenceSchema :: "json_value \<Rightarrow> error + GitHubReference" where
  "GitHubReferenceSchema v = (case v of ReferenceJson r \<Rightarrow> Inr r | _ \<Rightarrow> Inl ZodError)"

definition GitHubTreeSchema :: "json_value \<Rightarrow> error + GitHubTree" where
  "GitHubTreeSchema v = (case v of TreeJson t \<Rightarrow> Inr t | _ \<Rightarrow> Inl ZodError)"

definition GitHubCommitSchema :: "json_value \<Rightarrow> error + GitHubCommit" where
  "GitHubCommitSchema v = (case v of CommitJson c \<Rightarrow> Inr c | _ \<Rightarrow> Inl ZodError)"

definition GitHubContentSchema :: "json_value \<Rightarrow> error + GitHubContent" where
  "GitHubContentSchema v = (case v of ContentJson c \<Rightarrow> Inr c | _ \<Rightarrow> Inl ZodError)"

definition GitHubCreateUpdateFileResponseSchema ::
  "json_value \<Rightarrow> error + GitHubCreateUpdateFileResponse" where
  "GitHubCreateUpdateFileResponseSchema v =
     (case v of FileResponseJson c \<Rightarrow> Inr c | _ \<Rightarrow> Inl ZodError)"

text \<open>\<^verbatim>\<open>Schema.parse(await response.json())\<close>.\<close>

definition parse_body :: "(json_value \<Rightarrow> error + 'a) \<Rightarrow> response \<Rightarrow> error + 'a" where
  "parse_body schema r = (case response_json r of Inl e \<Rightarrow> Inl e | Inr v \<Rightarrow> schema v)"

text \<open>The text of the error that every core operation raises on a non-success response.\<close>

definition api_error :: "response \<Rightarrow> error" where
  "api_error r = Error (''GitHub API error: '' @ statusText r)"

text \<open>
  The tail that the core operations share:
  \<^verbatim>\<open>if (!response.ok) throw new Error(...); return Schema.parse(await response.json())\<close>,
  after an \<^verbatim>\<open>await fetch(...)\<close> whose rejection propagates.
\<close>

fun checked ::
  "(json_value \<Rightarrow> error + 'a) \<Rightarrow> (error + response) \<times> 's world \<Rightarrow> (error + 'a) \<times> 's world" where
  "checked schema (Inl e, w) = (Inl e, w)"
| "checked schema (Inr r, w) = (if \<not> ok r then Inl (api_error r) else parse_body schema r, w)"

text \<open>JavaScript truthiness of an optional string: \<^verbatim>\<open>undefined\<close> and \<^verbatim>\<open>""\<close> are falsy.\<close>

definition truthy :: "'a list option \<Rightarrow> bool" where
  "truthy s = (case s of None \<Rightarrow> False | Some t \<Rightarrow> t \<noteq> [])"

text \<open>\<^verbatim>\<open>s.startsWith(p)\<close> and \<^verbatim>\<open>s.includes(t)\<close>.\<close>

definition startsWith :: "'a list \<Rightarrow> 'a list \<Rightarrow> bool" where
  "startsWith s p = (take (length p) s = p)"

fun str_includes :: "'a list \<Rightarrow> 'a list \<Rightarrow> bool" where
  "str_includes [] t = (t = [])"
| "str_includes (x # xs) t = (startsWith (x # xs) t \<or> str_includes xs t)"

section \<open>Reference Resolver\<close>

definition repo_url :: "string \<Rightarrow> string \<Rightarrow> string" where
  "repo_url owner repo = ''https://api.github.com/repos/'' @ owner @ ''/'' @ repo"

definition get_request :: "string \<Rightarrow> request" where
  "get_request u = \<lparr>rq_method = GET, rq_url = u, rq_body = None\<rparr>"

definition default_branch_error :: error where
  "default_branch_error = Error ''Could not find default branch (tried 'main' and 'master')''"

definition getDefaultBranchSHA ::
  "'s api \<Rightarrow> string \<Rightarrow> string \<Rightarrow> 's world \<Rightarrow> (error + string) \<times> 's world" where
  "getDefaultBranchSHA api owner repo w =
     (case fetch api (get_request (repo_url owner repo @ ''/git/refs/heads/main'')) w of
        (Inl e, w1) \<Rightarrow> (Inl e, w1)
      | (Inr response, w1) \<Rightarrow>
          if \<not> ok response then
            (case fetch api (get_request (repo_url owner repo @ ''/git/refs/heads/master'')) w1 of
               (Inl e, w2) \<Rightarrow> (Inl e, w2)
             | (Inr masterResponse, w2) \<Rightarrow>
                 if \<not> ok masterResponse then (Inl default_branch_error, w2)
                 else (case parse_body GitHubReferenceSchema masterResponse of
                         Inl e \<Rightarrow> (Inl e, w2)
                       | Inr data \<Rightarrow> (Inr (object_sha data), w2)))
          else (case parse_body GitHubReferenceSchema response of
                  Inl e \<Rightarrow> (Inl e, w1)
                | Inr data \<Rightarrow> (Inr (object_sha data), w1)))"

section \<open>Text encodings of the platform\<close>

text \<open>
  \<^verbatim>\<open>Buffer.from(s)\<close> encodes a JavaScript string as UTF-8: a high surrogate followed by a
  low surrogate is one code point, and a surrogate that stands alone is replaced by
  U+FFFD. \<^verbatim>\<open>buf.toString("utf8")\<close> decodes UTF-8, replacing every maximal invalid part by
  U+FFFD. The arithmetic is done on natural numbers; the word types hold the values.
\<close>

definition is_high :: "nat \<Rightarrow> bool" where
  "is_high u = (0xD800 \<le> u \<and> u \<le> 0xDBFF)"

definition is_low :: "nat \<Rightarrow> bool" where
  "is_low u = (0xDC00 \<le> u \<and> u \<le> 0xDFFF)"

fun code_points :: "nat list \<Rightarrow> nat list" where
  "code_points [] = []"
| "code_points [u] = [if is_high u \<or> is_low u then 0xFFFD else u]"
| "code_points (u # v # us) =
     (if is_high u \<and> is_low v
      then (0x10000 + (u - 0xD800) * 0x400 + (v - 0xDC00)) # code_points us
      else (if is_high u \<or> is_low u then 0xFFFD else u) # code_points (v # us))"

definition utf8_bytes :: "nat \<Rightarrow> nat list" where
  "utf8_bytes cp =
     (if cp < 0x80 then [cp]
      else if cp < 0x800 then [0xC0 + cp div 64, 0x80 + cp mod 64]
      else if cp < 0x10000 then
        [0xE0 + cp div 4096, 0x80 + cp div 64 mod 64, 0x80 + cp mod 64]
      else
        [0xF0 + cp div 262144, 0x80 + cp div 4096 mod 64, 0x80 + cp div 64 mod 64,
         0x80 + cp mod 64])"

definition utf8_encode :: "jsstring \<Rightarrow> bytes" where
  "utf8_encode s = map of_nat (concat (map utf8_bytes (code_points (map unat s))))"

text \<open>The second byte of a sequence has a range that depends on the first.\<close>

definition lower_bound :: "nat \<Rightarrow> nat" where
  "lower_bound b0 = (if b0 = 0xE0 then 0xA0 else if b0 = 0xF0 then 0x90 else 0x80)"

definition upper_bound :: "nat \<Rightarrow> nat" where
  "upper_bound b0 = (if b0 = 0xED then 0x9F else if b0 = 0xF4 then 0x8F else 0xBF)"

definition continuation :: "nat \<Rightarrow> bool" where
  "continuation b = (0x80 \<le> b \<and> b \<le> 0xBF)"

fun utf8_cps :: "nat list \<Rightarrow> nat list" where
  "utf8_cps [] = []"
| "utf8_cps (b0 # bs) =
     (if b0 < 0x80 then b0 # utf8_cps bs
      else if 0xC2 \<le> b0 \<and> b0 \<le> 0xDF then
        (case bs of
           [] \<Rightarrow> [0xFFFD]
         | b1 # r1 \<Rightarrow>
             if continuation b1
             then ((b0 - 0xC0) * 64 + (b1 - 0x80)) # utf8_cps r1
             else 0xFFFD # utf8_cps bs)
      else if 0xE0 \<le> b0 \<and> b0 \<le> 0xEF then
        (case bs of
           [] \<Rightarrow> [0xFFFD]
         | b1 # r1 \<Rightarrow>
             if lower_bound b0 \<le> b1 \<and> b1 \<le> upper_bound b0 then
               (case r1 of
                  [] \<Rightarrow> [0xFFFD]
                | b2 # r2 \<Rightarrow>
                    if continuation b2
                    then ((b0 - 0xE0) * 4096 + (b1 - 0x80) * 64 + (b2 - 0x80)) # utf8_cps r2
                    else 0xFFFD # utf8_cps r1)
             else 0xFFFD # utf8_cps bs)
      else if 0xF0 \<le> b0 \<and> b0 \<le> 0xF4 then
        (case bs of
           [] \<Rightarrow> [0xFFFD]
         | b1 # r1 \<Rightarrow>
             if lower_bound b0 \<le> b1 \<and> b1 \<le> upper_bound b0 then
               (case r1 of
                  [] \<Rightarrow> [0xFFFD]
                | b2 # r2 \<Rightarrow>
                    if continuation b2 then
                      (case r2 of
                         [] \<Rightarrow> [0xFFFD]
                       | b3 # r3 \<Rightarrow>
                           if continuation b3
                           then ((b0 - 0xF0) * 262144 + (b1 - 0x80) * 4096
                                 + (b2 - 0x80) * 64 + (b3 - 0x80)) # utf8_cps r3
                           else 0xFFFD # utf8_cps r2)
                    else 0xFFFD # utf8_cps r1)
             else 0xFFFD # utf8_cps bs)
      else 0xFFFD # utf8_cps bs)"

definition utf16_units :: "nat \<Rightarrow> nat list" where
  "utf16_units cp =
     (if cp < 0x10000 then [cp]
      else [0xD800 + (cp - 0x10000) div 0x400, 0xDC00 + (cp - 0x10000) mod 0x400])"

definition utf8_decode :: "bytes \<Rightarrow> jsstring" where
  "utf8_decode bs = map of_nat (concat (map utf16_units (utf8_cps (map unat bs))))"

text \<open>
  \<^verbatim>\<open>buf.toString("base64")\<close>: three bytes give four characters of the standard alphabet,
  and a last group of one or two bytes is padded with \<^verbatim>\<open>=\<close>.
\<close>

definition b64chr :: "nat \<Rightarrow> nat" where
  "b64chr n =
     (if n < 26 then 65 + n
      else if n < 52 then 71 + n
      else if n < 62 then n - 4
      else if n = 62 then 43
      else 47)"

fun b64_groups :: "nat list \<Rightarrow> nat list" where
  "b64_groups (a # b # c # r) =
     [b64chr (a div 4), b64chr (a mod 4 * 16 + b div 16), b64chr (b mod 16 * 4 + c div 64),
      b64chr (c mod 64)] @ b64_groups r"
| "b64_groups [a, b] =
     [b64chr (a div 4), b64chr (a mod 4 * 16 + b div 16), b64chr (b mod 16 * 4), 61]"
| "b64_groups [a] = [b64chr (a div 4), b64chr (a mod 4 * 16), 61, 61]"
| "b64_groups [] = []"

definition base64_encode :: "bytes \<Rightarrow> jsstring" where
  "base64_encode bs = map of_nat (b64_groups (map unat bs))"

text \<open>
  \<^verbatim>\<open>Buffer.from(s, "base64")\<close>: decoding stops at the first \<^verbatim>\<open>=\<close>; before it, every
  character outside the alphabets (standard and URL-safe) is skipped, line breaks
  included; the last group gives one byte for two characters and two for three.
\<close>

definition unbase64 :: "nat \<Rightarrow> nat option" where
  "unbase64 c =
     (if 65 \<le> c \<and> c \<le> 90 then Some (c - 65)
      else if 97 \<le> c \<and> c \<le> 122 then Some (c - 71)
      else if 48 \<le> c \<and> c \<le> 57 then Some (c + 4)
      else if c = 43 \<or> c = 45 then Some 62
      else if c = 47 \<or> c = 95 then Some 63
      else None)"

definition sextets :: "nat list \<Rightarrow> nat list" where
  "sextets s = List.map_filter unbase64 (takeWhile (\<lambda>c. c \<noteq> 61) s)"

fun from_sextets :: "nat list \<Rightarrow> nat list" where
  "from_sextets (a # b # c # d # r) =
     [a * 4 + b div 16, b mod 16 * 16 + c div 4, c mod 4 * 64 + d] @ from_sextets r"
| "from_sextets [a, b, c] = [a * 4 + b div 16, b mod 16 * 16 + c div 4]"
| "from_sextets [a, b] = [a * 4 + b div 16]"
| "from_sextets [a] = []"
| "from_sextets [] = []"

definition base64_decode :: "jsstring \<Rightarrow> bytes" where
  "base64_decode s = map of_nat (from_sextets (sextets (map unat s)))"

section \<open>Content Fetcher\<close>

definition getFileContents ::
  "'s api \<Rightarrow> string \<Rightarrow> string \<Rightarrow> string \<Rightarrow> string option \<Rightarrow> 's world
   \<Rightarrow> (error + GitHubContent) \<times> 's world" where
  "getFileContents api owner repo path branch w =
     (let url = repo_url owner repo @ ''/contents/'' @ path;
          url = (case branch of
                   None \<Rightarrow> url
                 | Some b \<Rightarrow> if b \<noteq> [] then url @ ''?ref='' @ b else url)
      in case checked GitHubContentSchema (fetch api (get_request url) w) of
           (Inl e, w1) \<Rightarrow> (Inl e, w1)
         | (Inr data, w1) \<Rightarrow>
             (case data of
                File f \<Rightarrow>
                  if fc_content f \<noteq> []
                  then (Inr (File (f\<lparr>fc_content := utf8_decode (base64_decode (fc_content f))\<rparr>)), w1)
                  else (Inr data, w1)
              | Listing entries \<Rightarrow> (Inr data, w1)))"

section \<open>Single-File Writer\<close>

text \<open>
  The \<^verbatim>\<open>catch\<close> around the lookup writes a note to the error console and goes on; the note
  is not part of the model.
\<close>

definition createOrUpdateFile ::
  "'s api \<Rightarrow> string \<Rightarrow> string \<Rightarrow> string \<Rightarrow> jsstring \<Rightarrow> string \<Rightarrow> string \<Rightarrow> string option
   \<Rightarrow> 's world \<Rightarrow> (error + GitHubCreateUpdateFileResponse) \<times> 's world" where
  "createOrUpdateFile api owner repo path content message branch sha w =
     (let encodedContent = base64_encode (utf8_encode content);
          (currentSha, w1) =
            (if \<not> truthy sha then
               (case getFileContents api owner repo path (Some branch) w of
                  (Inl e, w') \<Rightarrow> (sha, w')
                | (Inr (File existingFile), w') \<Rightarrow> (Some (fc_sha existingFile), w')
                | (Inr (Listing entries), w') \<Rightarrow> (sha, w'))
             else (sha, w));
          url = repo_url owner repo @ ''/contents/'' @ path;
          body = FileBody message encodedContent branch
                   (if truthy currentSha then currentSha else None)
      in checked GitHubCreateUpdateFileResponseSchema
           (fetch api \<lparr>rq_method = PUT, rq_url = url, rq_body = Some body\<rparr> w1))"

section \<open>Tree Builder, Commit Builder, Reference Updater\<close>

definition tree_of :: "FileOperation \<Rightarrow> tree_entry" where
  "tree_of file =
     \<lparr>te_path = fo_path file, te_mode = ''100644'', te_type = ''blob'',
      te_content = fo_content file\<rparr>"

definition createTree ::
  "'s api \<Rightarrow> string \<Rightarrow> string \<Rightarrow> FileOperation list \<Rightarrow> string option \<Rightarrow> 's world
   \<Rightarrow> (error + GitHubTree) \<times> 's world" where
  "createTree api owner repo files baseTree w =
     (let tree = map tree_of files
      in checked GitHubTreeSchema
           (fetch api \<lparr>rq_method = POST, rq_url = repo_url owner repo @ ''/git/trees'',
                       rq_body = Some (TreeBody tree baseTree)\<rparr> w))"

definition createCommit ::
  "'s api \<Rightarrow> string \<Rightarrow> string \<Rightarrow> string \<Rightarrow> string \<Rightarrow> string list \<Rightarrow> 's world
   \<Rightarrow> (error + GitHubCommit) \<times> 's world" where
  "createCommit api owner repo message tree parents w =
     checked GitHubCommitSchema
       (fetch api \<lparr>rq_method = POST, rq_url = repo_url owner repo @ ''/git/commits'',
                   rq_body = Some (CommitBody message tree parents)\<rparr> w)"

text \<open>The source's \<^verbatim>\<open>force\<close> parameter has the default \<^verbatim>\<open>false\<close>; a caller that leaves it
  out passes \<open>False\<close> here.\<close>

definition updateReference ::
  "'s api \<Rightarrow> string \<Rightarrow> string \<Rightarrow> string \<Rightarrow> string \<Rightarrow> bool \<Rightarrow> 's world
   \<Rightarrow> (error + GitHubReference) \<times> 's world" where
  "updateReference api owner repo ref sha force w =
     checked GitHubReferenceSchema
       (fetch api \<lparr>rq_method = PATCH, rq_url = repo_url owner repo @ ''/git/refs/'' @ ref,
                   rq_body = Some (UpdateRefBody sha force)\<rparr> w)"

section \<open>Batch Publisher\<close>

text \<open>
  The first step is written out in the source (a \<^verbatim>\<open>fetch\<close>, the test of \<^verbatim>\<open>ok\<close>, the
  validation of the body); it has the shape of \<open>checked\<close>. The last step leaves \<^verbatim>\<open>force\<close>
  to its default.
\<close>

definition pushFiles ::
  "'s api \<Rightarrow> string \<Rightarrow> string \<Rightarrow> string \<Rightarrow> FileOperation list \<Rightarrow> string \<Rightarrow> 's world
   \<Rightarrow> (error + unit) \<times> 's world" where
  "pushFiles api owner repo branch files message w =
     (case checked GitHubReferenceSchema
             (fetch api (get_request (repo_url owner repo @ ''/git/refs/heads/'' @ branch)) w) of
        (Inl e, w1) \<Rightarrow> (Inl e, w1)
      | (Inr branchData, w1) \<Rightarrow>
          (let latestCommitSha = object_sha branchData
           in case createTree api owner repo files (Some latestCommitSha) w1 of
                (Inl e, w2) \<Rightarrow> (Inl e, w2)
              | (Inr tree, w2) \<Rightarrow>
                  (case createCommit api owner repo message (tree_sha tree) [latestCommitSha] w2 of
                     (Inl e, w3) \<Rightarrow> (Inl e, w3)
                   | (Inr commit, w3) \<Rightarrow>
                       (case updateReference api owner repo (''heads/'' @ branch)
                               (commit_sha commit) False w3 of
                          (Inl e, w4) \<Rightarrow> (Inl e, w4)
                        | (Inr moved, w4) \<Rightarrow> (Inr (), w4)))))"

section \<open>Platform functions of the gist operations\<close>










text \<open>\<^verbatim>\<open>s.split(c)\<close> for a separator of one character.\<close>

fun split :: "'a \<Rightarrow> 'a list \<Rightarrow> 'a list list" where
  "split c [] = [[]]"
| "split c (x # xs) =
     (if x = c then [] # split c xs
      else (case split c xs of [] \<Rightarrow> [[x]] | y # ys \<Rightarrow> (x # y) # ys))"


section \<open>Gists\<close>

text \<open>
  The source declares \<^verbatim>\<open>searchGists\<close> twice. The model is the later declaration, the one
  that calls \<^verbatim>\<open>listGists\<close> and filters what it returns; the earlier one forwards the query
  to a search endpoint.
\<close>


















section \<open>Vocabulary of the properties\<close>

text \<open>
  A request \<^emph>\<open>fails\<close>, in the sense of the code's test \<^verbatim>\<open>!response.ok\<close>, when it is answered
  with a status outside 200 to 299; it \<^emph>\<open>succeeds\<close> when it is answered with a status inside.
  A call that gets no answer at all is neither.
\<close>

definition answered_ok :: "string + response \<Rightarrow> bool" where
  "answered_ok out = (case out of Inl m \<Rightarrow> False | Inr r \<Rightarrow> ok r)"

definition answered_not_ok :: "string + response \<Rightarrow> bool" where
  "answered_not_ok out = (case out of Inl m \<Rightarrow> False | Inr r \<Rightarrow> \<not> ok r)"

text \<open>The sha that an answer carries when its body is a valid reference.\<close>

definition reference_sha :: "string + response \<Rightarrow> string option" where
  "reference_sha out =
     (case out of
        Inl m \<Rightarrow> None
      | Inr r \<Rightarrow> (case parse_body GitHubReferenceSchema r of
                   Inl e \<Rightarrow> None
                 | Inr data \<Rightarrow> Some (object_sha data)))"

text \<open>
  The error that a call raises, given how the call was answered: no answer, a
  non-success status, or a success whose body cannot be read or does not validate.
\<close>

definition raised_by :: "error \<Rightarrow> string + response \<Rightarrow> bool" where
  "raised_by e out =
     (case out of
        Inl m \<Rightarrow> e = FetchError m
      | Inr r \<Rightarrow>
          if ok r then (case json r of Inl m \<Rightarrow> e = JsonError m | Inr v \<Rightarrow> e = ZodError)
          else e = api_error r)"

text \<open>The conditional-write token that the Single-File Writer takes from its lookup.\<close>

definition write_token :: "error + GitHubContent \<Rightarrow> string option" where
  "write_token look =
     (case look of
        Inl e \<Rightarrow> None
      | Inr (File f) \<Rightarrow> if fc_sha f = [] then None else Some (fc_sha f)
      | Inr (Listing entries) \<Rightarrow> None)"

text \<open>The one \<^verbatim>\<open>PUT\<close> of the Single-File Writer.\<close>

definition put_request ::
  "string \<Rightarrow> string \<Rightarrow> string \<Rightarrow> jsstring \<Rightarrow> string \<Rightarrow> string \<Rightarrow> string option \<Rightarrow> request" where
  "put_request owner repo path content message branch token =
     \<lparr>rq_method = PUT, rq_url = repo_url owner repo @ ''/contents/'' @ path,
      rq_body = Some (FileBody message (base64_encode (utf8_encode content)) branch token)\<rparr>"



text \<open>
  A code point that UTF-8 can carry, and a JavaScript string with no surrogate on its own:
  every high surrogate is followed by a low one, and a low one only comes so.
\<close>

definition scalar :: "nat \<Rightarrow> bool" where
  "scalar cp = (cp < 0x110000 \<and> \<not> (0xD800 \<le> cp \<and> cp \<le> 0xDFFF))"

fun paired :: "nat list \<Rightarrow> bool" where
  "paired [] = True"
| "paired [u] = (\<not> is_high u \<and> \<not> is_low u)"
| "paired (u # v # us) =
     (if is_high u then is_low v \<and> paired us else \<not> is_low u \<and> paired (v # us))"

definition well_formed :: "jsstring \<Rightarrow> bool" where
  "well_formed s = paired (map unat s)"

section \<open>Remotes for the examples\<close>

text \<open>
  A small remote with the behaviour of the hosting API that the examples need. Its state
  is the list of branch references, newest first, keyed by the URL of the reference.
  It answers a read of a reference with 200 or 404, creates trees and commits (a tree
  entry with a blank path is refused with 422), and moves an existing reference.
\<close>

definition respond :: "nat \<Rightarrow> string \<Rightarrow> json_value \<Rightarrow> response" where
  "respond st txt v =
     \<lparr>status = st, statusText = txt, ratelimit_remaining = None, ratelimit_reset = None,
      json = Inr v\<rparr>"

definition git_remote :: "(string \<times> string) list api" where
  "git_remote rq s =
     (case (rq_method rq, rq_body rq) of
        (GET, b) \<Rightarrow>
          (case map_of s (rq_url rq) of
             None \<Rightarrow> (Inr (respond 404 ''Not Found'' (ErrorJson (Some ''Not Found''))), s)
           | Some sha \<Rightarrow>
               (Inr (respond 200 ''OK'' (ReferenceJson \<lparr>ref_name = rq_url rq, object_sha = sha\<rparr>)), s))
      | (POST, Some (TreeBody entries base)) \<Rightarrow>
          if \<exists>e \<in> set entries. te_path e = []
          then (Inr (respond 422 ''Unprocessable Entity''
                  (ErrorJson (Some ''tree.path cannot be a blank string''))), s)
          else (Inr (respond 201 ''Created'' (TreeJson \<lparr>tree_sha = ''t1''\<rparr>)), s)
      | (POST, Some (CommitBody m t ps)) \<Rightarrow>
          (Inr (respond 201 ''Created'' (CommitJson \<lparr>commit_sha = ''c1'', commit_message = m\<rparr>)), s)
      | (PATCH, Some (UpdateRefBody sha force)) \<Rightarrow>
          (case map_of s (rq_url rq) of
             None \<Rightarrow> (Inr (respond 422 ''Unprocessable Entity''
                        (ErrorJson (Some ''Reference does not exist''))), s)
           | Some old \<Rightarrow>
               (Inr (respond 200 ''OK'' (ReferenceJson \<lparr>ref_name = rq_url rq, object_sha = sha\<rparr>)),
                (rq_url rq, sha) # s))
      | other \<Rightarrow> (Inr (respond 400 ''Bad Request'' (ErrorJson None)), s))"

definition start :: "'s \<Rightarrow> 's world" where
  "start s = \<lparr>store = s, exchanges = []\<rparr>"

definition demo_files :: "FileOperation list" where
  "demo_files = [\<lparr>fo_path = ''a.txt'', fo_content = [104, 105]\<rparr>]"

definition main_at :: "string \<Rightarrow> (string \<times> string) list" where
  "main_at sha = [(''https://api.github.com/repos/o/r/git/refs/heads/main'', sha)]"

definition master_at :: "string \<Rightarrow> (string \<times> string) list" where
  "master_at sha = [(''https://api.github.com/repos/o/r/git/refs/heads/master'', sha)]"

definition main_ref :: string where
  "main_ref = ''https://api.github.com/repos/o/r/git/refs/heads/main''"

definition blank_files :: "FileOperation list" where
  "blank_files = [\<lparr>fo_path = ''a.txt'', fo_content = [104, 105]\<rparr>, \<lparr>fo_path = [], fo_content = [104]\<rparr>]"

text \<open>
  Variants: a remote that moves the reference and then answers with a body cut short; a
  remote that refuses every update of a reference; a remote that accepts every tree; a
  remote that gives the same answer to every call.
\<close>

definition truncating_remote :: "(string \<times> string) list api" where
  "truncating_remote rq s =
     (case git_remote rq s of
        (Inr r, s') \<Rightarrow>
          if rq_method rq = PATCH \<and> ok r
          then (Inr (r\<lparr>json := Inl ''Unexpected end of JSON input''\<rparr>), s')
          else (Inr r, s')
      | (Inl m, s') \<Rightarrow> (Inl m, s'))"

definition refusing_updates :: "'s api \<Rightarrow> 's api" where
  "refusing_updates api rq s =
     (if rq_method rq = PATCH
      then (Inr (respond 422 ''Unprocessable Entity''
              (ErrorJson (Some ''Update is not a fast forward''))), s)
      else api rq s)"

definition lenient_remote :: "(string \<times> string) list api" where
  "lenient_remote rq s =
     (case rq_body rq of
        Some (TreeBody entries base) \<Rightarrow>
          (Inr (respond 201 ''Created'' (TreeJson \<lparr>tree_sha = ''t1''\<rparr>)), s)
      | other \<Rightarrow> git_remote rq s)"

definition always :: "response \<Rightarrow> unit api" where
  "always r rq s = (Inr r, s)"

definition server_error :: response where
  "server_error = respond 500 ''Internal Server Error'' (ErrorJson (Some ''boom''))"

text \<open>
  A remote that holds one file: its state is the blob sha and the base64 text of the
  file, if it exists. It serves the text with a line break at the end, as the hosting
  API does, and accepts a write whose token is the current sha.
\<close>

definition file_remote :: "(string \<times> jsstring) option api" where
  "file_remote rq s =
     (case (rq_method rq, rq_body rq) of
        (GET, b) \<Rightarrow>
          (case s of
             None \<Rightarrow> (Inr (respond 404 ''Not Found'' (ErrorJson (Some ''Not Found''))), s)
           | Some (sha, c) \<Rightarrow>
               (Inr (respond 200 ''OK''
                  (ContentJson (File \<lparr>fc_name = ''f'', fc_path = ''f'', fc_sha = sha,
                     fc_content = (if c = [] then [] else c @ [10])\<rparr>))), s))
      | (PUT, Some (FileBody m c b t)) \<Rightarrow>
          if map_option fst s = t
          then (Inr (respond 200 ''OK''
                  (FileResponseJson \<lparr>cu_content_sha = ''f1'', cu_commit_sha = ''c1''\<rparr>)),
                Some (''f1'', c))
          else (Inr (respond 409 ''Conflict'' (ErrorJson (Some ''sha does not match''))), s)
      | other \<Rightarrow> (Inr (respond 400 ''Bad Request'' (ErrorJson None)), s))"









text \<open>A text with a character outside the basic plane: U+1F600, then \<^verbatim>\<open>e\<close> with acute.\<close>

definition demo_text :: jsstring where
  "demo_text = [0xD83D, 0xDE00, 0xE9]"

section \<open>Properties\<close>

subsection \<open>One remote call\<close>

lemmas eval_defs = pushFiles_def createTree_def createCommit_def updateReference_def fetch_def
  git_remote_def respond_def start_def ok_def parse_body_def response_json_def repo_url_def
  get_request_def GitHubReferenceSchema_def GitHubTreeSchema_def GitHubCommitSchema_def
  tree_of_def Let_def demo_files_def main_at_def master_at_def getDefaultBranchSHA_def
  answered_ok_def answered_not_ok_def reference_sha_def default_branch_error_def
  refusing_updates_def lenient_remote_def blank_files_def truncating_remote_def main_ref_def
  api_error_def raised_by_def startsWith_def always_def server_error_def file_remote_def
  write_token_def getFileContents_def createOrUpdateFile_def GitHubContentSchema_def
  GitHubCreateUpdateFileResponseSchema_def truthy_def


lemmas codec_defs = base64_encode_def utf8_encode_def utf8_decode_def base64_decode_def
  utf8_bytes_def b64chr_def unbase64_def sextets_def utf16_units_def is_high_def is_low_def
  lower_bound_def upper_bound_def continuation_def List.map_filter_def

lemma checked_fetch_ok:
  assumes "checked schema (fetch api rq w) = (Inr v, w')"
  shows "\<exists>r. api rq (store w) = (Inr r, store w') \<and> exchanges w' = exchanges w @ [(rq, Inr r)]
           \<and> ok r \<and> parse_body schema r = Inr v"
  using assms by (auto simp: fetch_def split: prod.splits sum.splits if_splits)


lemma not_default_branch_error:
  "FetchError m \<noteq> default_branch_error"
  "parse_body GitHubReferenceSchema r \<noteq> Inl default_branch_error"
  by (auto simp: default_branch_error_def parse_body_def response_json_def GitHubReferenceSchema_def
      split: sum.splits json_value.splits)

lemma checked_fetch_not_ok:
  assumes "checked schema (fetch api rq w) = (res, w')"
    and "exchanges w' = exchanges w @ [(rq', Inr r)]" and "\<not> ok r"
  shows "res = Inl (api_error r)"
  using assms by (auto simp: fetch_def split: prod.splits sum.splits if_splits)





lemma getFileContents_one_request:
  assumes "getFileContents api owner repo path branch w = (res, w')"
  shows "\<exists>q out. exchanges w' = exchanges w @ [(q, out)] \<and> rq_method q = GET
           \<and> rq_url q = repo_url owner repo @ ''/contents/'' @ path @
               (case branch of None \<Rightarrow> [] | Some b \<Rightarrow> if b = [] then [] else ''?ref='' @ b)"
  using assms
  by (auto simp: getFileContents_def Let_def fetch_def get_request_def
      split: prod.splits sum.splits if_splits option.splits GitHubContent.splits)

subsection \<open>Batch Publisher\<close>

text \<open>
  C1. A successful \<^verbatim>\<open>pushFiles\<close> made exactly four calls, in this order: it read
  \<^verbatim>\<open>heads/{branch}\<close> and took \<open>latestCommitSha\<close> from the answer; it created a tree from
  \<open>files\<close> with that sha as base tree; it created one commit whose tree is the sha of the
  tree just created and whose parents are exactly \<open>[latestCommitSha]\<close>; it updated
  \<^verbatim>\<open>heads/{branch}\<close> to the sha of the commit just created, with \<open>force = false\<close>. Every
  call was answered with success and with a valid body, and each request carries what
  the answer before it gave.
\<close>

theorem pushFiles_success_sequence:
  assumes run: "pushFiles api owner repo branch files message w = (Inr u, w')"
  shows "\<exists>r1 r2 r3 r4 branchData tree commit moved.
           exchanges w' = exchanges w @
             [(get_request (repo_url owner repo @ ''/git/refs/heads/'' @ branch), Inr r1),
              (\<lparr>rq_method = POST, rq_url = repo_url owner repo @ ''/git/trees'',
                rq_body = Some (TreeBody (map tree_of files) (Some (object_sha branchData)))\<rparr>, Inr r2),
              (\<lparr>rq_method = POST, rq_url = repo_url owner repo @ ''/git/commits'',
                rq_body = Some (CommitBody message (tree_sha tree) [object_sha branchData])\<rparr>, Inr r3),
              (\<lparr>rq_method = PATCH, rq_url = repo_url owner repo @ ''/git/refs/heads/'' @ branch,
                rq_body = Some (UpdateRefBody (commit_sha commit) False)\<rparr>, Inr r4)]
         \<and> ok r1 \<and> parse_body GitHubReferenceSchema r1 = Inr branchData
         \<and> ok r2 \<and> parse_body GitHubTreeSchema r2 = Inr tree
         \<and> ok r3 \<and> parse_body GitHubCommitSchema r3 = Inr commit
         \<and> ok r4 \<and> parse_body GitHubReferenceSchema r4 = Inr moved"
proof -
  from run obtain branchData w1 tree w2 commit w3 moved where
    s1: "checked GitHubReferenceSchema
           (fetch api (get_request (repo_url owner repo @ ''/git/refs/heads/'' @ branch)) w)
         = (Inr branchData, w1)"
    and s2: "createTree api owner repo files (Some (object_sha branchData)) w1 = (Inr tree, w2)"
    and s3: "createCommit api owner repo message (tree_sha tree) [object_sha branchData] w2
             = (Inr commit, w3)"
    and s4: "updateReference api owner repo (''heads/'' @ branch) (commit_sha commit) False w3
             = (Inr moved, w')"
    by (auto simp: pushFiles_def Let_def split: prod.splits sum.splits)
  from checked_fetch_ok [OF s1] obtain r1 where
    e1: "exchanges w1 = exchanges w @
           [(get_request (repo_url owner repo @ ''/git/refs/heads/'' @ branch), Inr r1)]"
    and k1: "ok r1" "parse_body GitHubReferenceSchema r1 = Inr branchData"
    by blast
  from checked_fetch_ok [OF s2 [unfolded createTree_def Let_def]] obtain r2 where
    e2: "exchanges w2 = exchanges w1 @
           [(\<lparr>rq_method = POST, rq_url = repo_url owner repo @ ''/git/trees'',
              rq_body = Some (TreeBody (map tree_of files) (Some (object_sha branchData)))\<rparr>, Inr r2)]"
    and k2: "ok r2" "parse_body GitHubTreeSchema r2 = Inr tree"
    by blast
  from checked_fetch_ok [OF s3 [unfolded createCommit_def]] obtain r3 where
    e3: "exchanges w3 = exchanges w2 @
           [(\<lparr>rq_method = POST, rq_url = repo_url owner repo @ ''/git/commits'',
              rq_body = Some (CommitBody message (tree_sha tree) [object_sha branchData])\<rparr>, Inr r3)]"
    and k3: "ok r3" "parse_body GitHubCommitSchema r3 = Inr commit"
    by blast
  from checked_fetch_ok [OF s4 [unfolded updateReference_def]] obtain r4 where
    e4: "exchanges w' = exchanges w3 @
           [(\<lparr>rq_method = PATCH, rq_url = repo_url owner repo @ ''/git/refs/'' @ ''heads/'' @ branch,
              rq_body = Some (UpdateRefBody (commit_sha commit) False)\<rparr>, Inr r4)]"
    and k4: "ok r4" "parse_body GitHubReferenceSchema r4 = Inr moved"
    by blast
  from e1 e2 e3 e4 have "exchanges w' = exchanges w @
             [(get_request (repo_url owner repo @ ''/git/refs/heads/'' @ branch), Inr r1),
              (\<lparr>rq_method = POST, rq_url = repo_url owner repo @ ''/git/trees'',
                rq_body = Some (TreeBody (map tree_of files) (Some (object_sha branchData)))\<rparr>, Inr r2),
              (\<lparr>rq_method = POST, rq_url = repo_url owner repo @ ''/git/commits'',
                rq_body = Some (CommitBody message (tree_sha tree) [object_sha branchData])\<rparr>, Inr r3),
              (\<lparr>rq_method = PATCH, rq_url = repo_url owner repo @ ''/git/refs/heads/'' @ branch,
                rq_body = Some (UpdateRefBody (commit_sha commit) False)\<rparr>, Inr r4)]"
    by simp
  with k1 k2 k3 k4 show ?thesis by blast
qed

text \<open>The publication of one file on a branch that exists, against the example remote.\<close>

theorem pushFiles_success_sequence_witness:
  "\<exists>w'. pushFiles git_remote ''o'' ''r'' ''main'' demo_files ''msg'' (start (main_at ''c0'')) = (Inr (), w')
     \<and> (\<exists>r1 r2 r3 r4 branchData tree commit moved.
           exchanges w' = exchanges (start (main_at ''c0'')) @
             [(get_request (repo_url ''o'' ''r'' @ ''/git/refs/heads/'' @ ''main''), Inr r1),
              (\<lparr>rq_method = POST, rq_url = repo_url ''o'' ''r'' @ ''/git/trees'',
                rq_body = Some (TreeBody (map tree_of demo_files) (Some (object_sha branchData)))\<rparr>, Inr r2),
              (\<lparr>rq_method = POST, rq_url = repo_url ''o'' ''r'' @ ''/git/commits'',
                rq_body = Some (CommitBody ''msg'' (tree_sha tree) [object_sha branchData])\<rparr>, Inr r3),
              (\<lparr>rq_method = PATCH, rq_url = repo_url ''o'' ''r'' @ ''/git/refs/heads/'' @ ''main'',
                rq_body = Some (UpdateRefBody (commit_sha commit) False)\<rparr>, Inr r4)]
         \<and> ok r1 \<and> parse_body GitHubReferenceSchema r1 = Inr branchData
         \<and> ok r2 \<and> parse_body GitHubTreeSchema r2 = Inr tree
         \<and> ok r3 \<and> parse_body GitHubCommitSchema r3 = Inr commit
         \<and> ok r4 \<and> parse_body GitHubReferenceSchema r4 = Inr moved)"
proof -
  have "fst (pushFiles git_remote ''o'' ''r'' ''main'' demo_files ''msg'' (start (main_at ''c0''))) = Inr ()"
    by (simp add: eval_defs)
  then obtain w' where
    run: "pushFiles git_remote ''o'' ''r'' ''main'' demo_files ''msg'' (start (main_at ''c0'')) = (Inr (), w')"
    by (metis prod.collapse)
  from pushFiles_success_sequence [OF run] run show ?thesis by blast
qed





text \<open>
  C5, as stated, fails: the code does not look at the paths. With a remote that accepts
  every tree, a batch with a blank path is published; with a remote that refuses it, the
  error is the general one of a refused call, the same as for an update of a reference
  that does not exist.
\<close>

theorem pushFiles_blank_path_counterexample:
  "fo_path (blank_files ! 1) = []
   \<and> fst (pushFiles lenient_remote ''o'' ''r'' ''main'' blank_files ''msg'' (start (main_at ''c0'')))
       = Inr ()
   \<and> fst (pushFiles git_remote ''o'' ''r'' ''main'' blank_files ''msg'' (start (main_at ''c0'')))
       = Inl (Error ''GitHub API error: Unprocessable Entity'')
   \<and> fst (updateReference git_remote ''o'' ''r'' ''heads/none'' ''c1'' False (start []))
       = Inl (Error ''GitHub API error: Unprocessable Entity'')"
  by (simp add: eval_defs)

text \<open>
  C5, amended. \<^verbatim>\<open>pushFiles\<close> sends every entry, whatever its path, in the one request that
  creates the tree. When the remote refuses that request, \<^verbatim>\<open>pushFiles\<close> raises
  \<^verbatim>\<open>GitHub API error:\<close> with the status text, and the log ends with the refused request:
  neither a commit nor an update of the reference is sent, so no entry is applied.
\<close>

theorem pushFiles_tree_refused:
  assumes run: "pushFiles api owner repo branch files message w = (res, w')"
    and tip: "api (get_request (repo_url owner repo @ ''/git/refs/heads/'' @ branch)) (store w)
              = (Inr r1, s1)"
      "ok r1" "parse_body GitHubReferenceSchema r1 = Inr branchData"
    and refused: "api \<lparr>rq_method = POST, rq_url = repo_url owner repo @ ''/git/trees'',
                       rq_body = Some (TreeBody (map tree_of files) (Some (object_sha branchData)))\<rparr> s1
                  = (Inr r2, s2)"
      "\<not> ok r2"
  shows "res = Inl (Error (''GitHub API error: '' @ statusText r2))
       \<and> store w' = s2
       \<and> exchanges w' = exchanges w @
           [(get_request (repo_url owner repo @ ''/git/refs/heads/'' @ branch), Inr r1),
            (\<lparr>rq_method = POST, rq_url = repo_url owner repo @ ''/git/trees'',
              rq_body = Some (TreeBody (map tree_of files) (Some (object_sha branchData)))\<rparr>, Inr r2)]"
  using run tip refused
  by (auto simp: pushFiles_def createTree_def fetch_def Let_def api_error_def)

text \<open>A batch with a blank path, against the remote that refuses blank paths.\<close>

theorem pushFiles_tree_refused_witness:
  "\<exists>w' r1 r2.
     pushFiles git_remote ''o'' ''r'' ''main'' blank_files ''msg'' (start (main_at ''c0''))
       = (Inl (Error ''GitHub API error: Unprocessable Entity''), w')
   \<and> \<not> ok r2
   \<and> store w' = main_at ''c0''
   \<and> exchanges w' =
        [(get_request (repo_url ''o'' ''r'' @ ''/git/refs/heads/'' @ ''main''), Inr r1),
         (\<lparr>rq_method = POST, rq_url = repo_url ''o'' ''r'' @ ''/git/trees'',
           rq_body = Some (TreeBody (map tree_of blank_files) (Some ''c0''))\<rparr>, Inr r2)]"
proof -
  let ?r1 = "respond 200 ''OK'' (ReferenceJson \<lparr>ref_name = main_ref, object_sha = ''c0''\<rparr>)"
  let ?r2 = "respond 422 ''Unprocessable Entity'' (ErrorJson (Some ''tree.path cannot be a blank string''))"
  obtain res w' where
    run: "pushFiles git_remote ''o'' ''r'' ''main'' blank_files ''msg'' (start (main_at ''c0'')) = (res, w')"
    by (metis prod.collapse)
  have tip: "git_remote (get_request (repo_url ''o'' ''r'' @ ''/git/refs/heads/'' @ ''main''))
               (store (start (main_at ''c0''))) = (Inr ?r1, main_at ''c0'')"
    "ok ?r1"
    "parse_body GitHubReferenceSchema ?r1 = Inr \<lparr>ref_name = main_ref, object_sha = ''c0''\<rparr>"
    by (simp_all add: eval_defs)
  have refused: "git_remote \<lparr>rq_method = POST, rq_url = repo_url ''o'' ''r'' @ ''/git/trees'',
        rq_body = Some (TreeBody (map tree_of blank_files)
          (Some (object_sha \<lparr>ref_name = main_ref, object_sha = ''c0''\<rparr>)))\<rparr> (main_at ''c0'')
      = (Inr ?r2, main_at ''c0'')"
    "\<not> ok ?r2"
    by (simp_all add: eval_defs)
  from pushFiles_tree_refused [OF run tip refused] run refused(2)
  show ?thesis
    by (intro exI [of _ w'] exI [of _ ?r1] exI [of _ ?r2]) (simp add: respond_def start_def)
qed

subsection \<open>Reference Resolver\<close>

text \<open>
  C3. \<^verbatim>\<open>getDefaultBranchSHA\<close> first requests the reference of \<^verbatim>\<open>main\<close>. It requests the
  reference of \<^verbatim>\<open>master\<close> exactly when the first request failed, and makes no other
  request. It raises the error that says no default branch was found if and only if both
  requests failed. When the first request succeeded, the result is the sha of its
  reference; when the first failed and the second succeeded, the result is the sha of
  the second; and it returns a sha in no other case.
\<close>

theorem getDefaultBranchSHA_main_then_master:
  assumes run: "getDefaultBranchSHA api owner repo w = (res, w')"
    and first: "api (get_request (repo_url owner repo @ ''/git/refs/heads/main'')) (store w) = (o1, s1)"
    and second: "api (get_request (repo_url owner repo @ ''/git/refs/heads/master'')) s1 = (o2, s2)"
  shows "exchanges w' = exchanges w @
           (if answered_not_ok o1
            then [(get_request (repo_url owner repo @ ''/git/refs/heads/main''), o1),
                  (get_request (repo_url owner repo @ ''/git/refs/heads/master''), o2)]
            else [(get_request (repo_url owner repo @ ''/git/refs/heads/main''), o1)])
       \<and> (res = Inl default_branch_error) = (answered_not_ok o1 \<and> answered_not_ok o2)
       \<and> (answered_ok o1 \<longrightarrow> (\<forall>sha. (res = Inr sha) = (reference_sha o1 = Some sha)))
       \<and> (answered_not_ok o1 \<and> answered_ok o2 \<longrightarrow>
            (\<forall>sha. (res = Inr sha) = (reference_sha o2 = Some sha)))
       \<and> ((\<exists>sha. res = Inr sha) \<longrightarrow> answered_ok o1 \<or> answered_not_ok o1 \<and> answered_ok o2)"
  using run first second not_default_branch_error
  by (auto simp: getDefaultBranchSHA_def fetch_def answered_ok_def answered_not_ok_def
      reference_sha_def split: sum.splits if_splits prod.splits)

text \<open>
  A repository that has \<^verbatim>\<open>master\<close> and no \<^verbatim>\<open>main\<close> gives the tip of \<^verbatim>\<open>master\<close>; a repository
  that has neither gives the error.
\<close>

theorem getDefaultBranchSHA_main_then_master_witness:
  "(\<exists>w' o1 o2. getDefaultBranchSHA git_remote ''o'' ''r'' (start (master_at ''m0'')) = (Inr ''m0'', w')
      \<and> answered_not_ok o1 \<and> answered_ok o2 \<and> reference_sha o2 = Some ''m0''
      \<and> exchanges w' =
            [(get_request (repo_url ''o'' ''r'' @ ''/git/refs/heads/main''), o1),
             (get_request (repo_url ''o'' ''r'' @ ''/git/refs/heads/master''), o2)])
   \<and> (\<exists>w' o1 o2. getDefaultBranchSHA git_remote ''o'' ''r'' (start []) = (Inl default_branch_error, w')
      \<and> answered_not_ok o1 \<and> answered_not_ok o2
      \<and> exchanges w' =
            [(get_request (repo_url ''o'' ''r'' @ ''/git/refs/heads/main''), o1),
             (get_request (repo_url ''o'' ''r'' @ ''/git/refs/heads/master''), o2)])"
proof -
  obtain res w' where
    run: "getDefaultBranchSHA git_remote ''o'' ''r'' (start (master_at ''m0'')) = (res, w')"
    by (metis prod.collapse)
  obtain o1 s1 where
    first: "git_remote (get_request (repo_url ''o'' ''r'' @ ''/git/refs/heads/main''))
              (store (start (master_at ''m0''))) = (o1, s1)"
    by (metis prod.collapse)
  obtain o2 s2 where
    second: "git_remote (get_request (repo_url ''o'' ''r'' @ ''/git/refs/heads/master'')) s1 = (o2, s2)"
    by (metis prod.collapse)
  have v1: "answered_not_ok o1" "s1 = master_at ''m0''"
    using first by (auto simp: eval_defs)
  have v2: "answered_ok o2" "reference_sha o2 = Some ''m0''"
    using second v1 by (auto simp: eval_defs)
  note a = getDefaultBranchSHA_main_then_master [OF run first second]
  from a v1 v2 have "res = Inr ''m0''" by blast
  with a v1 v2 run have A:
    "\<exists>w' o1 o2. getDefaultBranchSHA git_remote ''o'' ''r'' (start (master_at ''m0'')) = (Inr ''m0'', w')
      \<and> answered_not_ok o1 \<and> answered_ok o2 \<and> reference_sha o2 = Some ''m0''
      \<and> exchanges w' =
            [(get_request (repo_url ''o'' ''r'' @ ''/git/refs/heads/main''), o1),
             (get_request (repo_url ''o'' ''r'' @ ''/git/refs/heads/master''), o2)]"
    by (auto simp: start_def)
  obtain res' w'' where
    run': "getDefaultBranchSHA git_remote ''o'' ''r'' (start []) = (res', w'')"
    by (metis prod.collapse)
  obtain p1 t1 where
    first': "git_remote (get_request (repo_url ''o'' ''r'' @ ''/git/refs/heads/main''))
               (store (start [])) = (p1, t1)"
    by (metis prod.collapse)
  obtain p2 t2 where
    second': "git_remote (get_request (repo_url ''o'' ''r'' @ ''/git/refs/heads/master'')) t1 = (p2, t2)"
    by (metis prod.collapse)
  have u1: "answered_not_ok p1" "t1 = []"
    using first' by (auto simp: eval_defs)
  have u2: "answered_not_ok p2"
    using second' u1 by (auto simp: eval_defs)
  note b = getDefaultBranchSHA_main_then_master [OF run' first' second']
  from b u1 u2 have "res' = Inl default_branch_error" by blast
  with b u1 u2 run' have B:
    "\<exists>w' o1 o2. getDefaultBranchSHA git_remote ''o'' ''r'' (start []) = (Inl default_branch_error, w')
      \<and> answered_not_ok o1 \<and> answered_not_ok o2
      \<and> exchanges w' =
            [(get_request (repo_url ''o'' ''r'' @ ''/git/refs/heads/main''), o1),
             (get_request (repo_url ''o'' ''r'' @ ''/git/refs/heads/master''), o2)]"
    by (auto simp: start_def)
  from A B show ?thesis by blast
qed

subsection \<open>Tree Builder\<close>

text \<open>
  C7. \<^verbatim>\<open>createTree\<close> makes one request, a \<^verbatim>\<open>POST\<close> to \<^verbatim>\<open>/git/trees\<close>, whose body holds the
  given base tree and one entry for each file change, in the same order: the entry has
  the path and the content of the file change, mode \<^verbatim>\<open>100644\<close> and type \<^verbatim>\<open>blob\<close>.
\<close>

theorem createTree_single_request:
  assumes run: "createTree api owner repo files baseTree w = (res, w')"
  shows "\<exists>entries out.
           exchanges w' = exchanges w @
             [(\<lparr>rq_method = POST, rq_url = repo_url owner repo @ ''/git/trees'',
                rq_body = Some (TreeBody entries baseTree)\<rparr>, out)]
         \<and> length entries = length files
         \<and> (\<forall>i < length files.
               te_path (entries ! i) = fo_path (files ! i)
             \<and> te_content (entries ! i) = fo_content (files ! i)
             \<and> te_mode (entries ! i) = ''100644''
             \<and> te_type (entries ! i) = ''blob'')"
proof -
  obtain out s' where a: "api \<lparr>rq_method = POST, rq_url = repo_url owner repo @ ''/git/trees'',
                rq_body = Some (TreeBody (map tree_of files) baseTree)\<rparr> (store w) = (out, s')"
    by (metis prod.collapse)
  with run have "exchanges w' = exchanges w @
             [(\<lparr>rq_method = POST, rq_url = repo_url owner repo @ ''/git/trees'',
                rq_body = Some (TreeBody (map tree_of files) baseTree)\<rparr>, out)]"
    by (cases out) (auto simp: createTree_def fetch_def Let_def split: if_splits)
  moreover have "\<forall>i < length files.
               te_path (map tree_of files ! i) = fo_path (files ! i)
             \<and> te_content (map tree_of files ! i) = fo_content (files ! i)
             \<and> te_mode (map tree_of files ! i) = ''100644''
             \<and> te_type (map tree_of files ! i) = ''blob''"
    by (simp add: tree_of_def)
  ultimately show ?thesis
    by (intro exI [of _ "map tree_of files"] exI [of _ out]) simp
qed

text \<open>Two file changes layered on \<open>c0\<close>.\<close>

theorem createTree_single_request_witness:
  "\<exists>res w' entries out.
     createTree git_remote ''o'' ''r'' blank_files (Some ''c0'') (start []) = (res, w')
   \<and> exchanges w' =
         [(\<lparr>rq_method = POST, rq_url = repo_url ''o'' ''r'' @ ''/git/trees'',
            rq_body = Some (TreeBody entries (Some ''c0''))\<rparr>, out)]
   \<and> length entries = 2
   \<and> te_path (entries ! 0) = ''a.txt'' \<and> te_content (entries ! 0) = [104, 105]
   \<and> te_mode (entries ! 0) = ''100644'' \<and> te_type (entries ! 0) = ''blob''
   \<and> te_path (entries ! 1) = [] \<and> te_content (entries ! 1) = [104]
   \<and> te_mode (entries ! 1) = ''100644'' \<and> te_type (entries ! 1) = ''blob''"
proof -
  obtain res w' where
    run: "createTree git_remote ''o'' ''r'' blank_files (Some ''c0'') (start []) = (res, w')"
    by (metis prod.collapse)
  from createTree_single_request [OF run] obtain entries out where
    e: "exchanges w' = exchanges (start ([] :: (string \<times> string) list)) @
             [(\<lparr>rq_method = POST, rq_url = repo_url ''o'' ''r'' @ ''/git/trees'',
                rq_body = Some (TreeBody entries (Some ''c0''))\<rparr>, out)]"
      "length entries = length blank_files"
      "\<forall>i < length blank_files.
               te_path (entries ! i) = fo_path (blank_files ! i)
             \<and> te_content (entries ! i) = fo_content (blank_files ! i)
             \<and> te_mode (entries ! i) = ''100644''
             \<and> te_type (entries ! i) = ''blob''"
    by blast
  from e(3) [rule_format, of 0] e(3) [rule_format, of 1] e(1,2) run
  show ?thesis
    by (intro exI [of _ res] exI [of _ w'] exI [of _ entries] exI [of _ out])
       (simp add: blank_files_def start_def)
qed

subsection \<open>Errors of the core operations\<close>

text \<open>
  C8, as stated, fails: a refusal with status 422 and a message in its body raises an
  error whose text has the status text only, with neither the status nor the message.
\<close>

theorem core_error_text_counterexample:
  "fst (createTree git_remote ''o'' ''r'' blank_files None (start []))
     = Inl (Error ''GitHub API error: Unprocessable Entity'')
   \<and> snd (last (exchanges (snd (createTree git_remote ''o'' ''r'' blank_files None (start [])))))
     = Inr (respond 422 ''Unprocessable Entity''
              (ErrorJson (Some ''tree.path cannot be a blank string'')))
   \<and> \<not> str_includes ''GitHub API error: Unprocessable Entity'' ''422''
   \<and> \<not> str_includes ''GitHub API error: Unprocessable Entity'' ''tree.path cannot be a blank string''"
  by (simp add: eval_defs)

text \<open>
  C8, amended. When the call of \<^verbatim>\<open>getFileContents\<close>, \<^verbatim>\<open>createTree\<close>, \<^verbatim>\<open>createCommit\<close> or
  \<^verbatim>\<open>updateReference\<close> is answered with a non-success status, whichever it is, the error
  raised is \<^verbatim>\<open>Error\<close> with the text \<^verbatim>\<open>GitHub API error:\<close> followed by the status text of
  the answer.
\<close>

theorem core_error_text:
  assumes "\<not> ok r"
  shows "(\<forall>res w' rq. getFileContents api owner repo path branch w = (res, w')
             \<and> exchanges w' = exchanges w @ [(rq, Inr r)]
           \<longrightarrow> res = Inl (Error (''GitHub API error: '' @ statusText r)))
       \<and> (\<forall>res w' rq. createTree api owner repo files baseTree w = (res, w')
             \<and> exchanges w' = exchanges w @ [(rq, Inr r)]
           \<longrightarrow> res = Inl (Error (''GitHub API error: '' @ statusText r)))
       \<and> (\<forall>res w' rq. createCommit api owner repo message tree parents w = (res, w')
             \<and> exchanges w' = exchanges w @ [(rq, Inr r)]
           \<longrightarrow> res = Inl (Error (''GitHub API error: '' @ statusText r)))
       \<and> (\<forall>res w' rq. updateReference api owner repo ref sha force w = (res, w')
             \<and> exchanges w' = exchanges w @ [(rq, Inr r)]
           \<longrightarrow> res = Inl (Error (''GitHub API error: '' @ statusText r)))"
proof (intro conjI allI impI)
  fix res w' rq
  assume a: "getFileContents api owner repo path branch w = (res, w')
             \<and> exchanges w' = exchanges w @ [(rq, Inr r)]"
  show "res = Inl (Error (''GitHub API error: '' @ statusText r))"
    using a assms
    by (auto simp: getFileContents_def Let_def fetch_def api_error_def
        split: prod.splits sum.splits if_splits option.splits GitHubContent.splits)
next
  fix res w' rq
  assume "createTree api owner repo files baseTree w = (res, w')
             \<and> exchanges w' = exchanges w @ [(rq, Inr r)]"
  then show "res = Inl (Error (''GitHub API error: '' @ statusText r))"
    using checked_fetch_not_ok [OF _ _ assms] by (auto simp: createTree_def Let_def api_error_def)
next
  fix res w' rq
  assume "createCommit api owner repo message tree parents w = (res, w')
             \<and> exchanges w' = exchanges w @ [(rq, Inr r)]"
  then show "res = Inl (Error (''GitHub API error: '' @ statusText r))"
    using checked_fetch_not_ok [OF _ _ assms] by (auto simp: createCommit_def api_error_def)
next
  fix res w' rq
  assume "updateReference api owner repo ref sha force w = (res, w')
             \<and> exchanges w' = exchanges w @ [(rq, Inr r)]"
  then show "res = Inl (Error (''GitHub API error: '' @ statusText r))"
    using checked_fetch_not_ok [OF _ _ assms] by (auto simp: updateReference_def api_error_def)
qed

text \<open>Every call answered with 500.\<close>

theorem core_error_text_witness:
  "\<not> ok server_error
   \<and> fst (getFileContents (always server_error) ''o'' ''r'' ''README.md'' None (start ()))
       = Inl (Error ''GitHub API error: Internal Server Error'')
   \<and> fst (createTree (always server_error) ''o'' ''r'' demo_files (Some ''c0'') (start ()))
       = Inl (Error ''GitHub API error: Internal Server Error'')
   \<and> fst (createCommit (always server_error) ''o'' ''r'' ''msg'' ''t1'' [''c0''] (start ()))
       = Inl (Error ''GitHub API error: Internal Server Error'')
   \<and> fst (updateReference (always server_error) ''o'' ''r'' ''heads/main'' ''c1'' False (start ()))
       = Inl (Error ''GitHub API error: Internal Server Error'')"
proof -
  have n: "\<not> ok server_error" by (simp add: eval_defs)
  let ?a = "getFileContents (always server_error) ''o'' ''r'' ''README.md'' None (start ())"
  let ?b = "createTree (always server_error) ''o'' ''r'' demo_files (Some ''c0'') (start ())"
  let ?c = "createCommit (always server_error) ''o'' ''r'' ''msg'' ''t1'' [''c0''] (start ())"
  let ?d = "updateReference (always server_error) ''o'' ''r'' ''heads/main'' ''c1'' False (start ())"
  note t = core_error_text [OF n, of "always server_error" "''o''" "''r''" "''README.md''" None
      "start ()" demo_files "Some ''c0''" "''msg''" "''t1''" "[''c0'']" "''heads/main''" "''c1''" False]
  have "fst ?a = Inl (Error (''GitHub API error: '' @ statusText server_error))"
    using t [THEN conjunct1, rule_format, of "fst ?a" "snd ?a" "fst (last (exchanges (snd ?a)))"]
    by (simp add: eval_defs)
  moreover have "fst ?b = Inl (Error (''GitHub API error: '' @ statusText server_error))"
    using t [THEN conjunct2, THEN conjunct1, rule_format,
        of "fst ?b" "snd ?b" "fst (last (exchanges (snd ?b)))"]
    by (simp add: eval_defs)
  moreover have "fst ?c = Inl (Error (''GitHub API error: '' @ statusText server_error))"
    using t [THEN conjunct2, THEN conjunct2, THEN conjunct1, rule_format,
        of "fst ?c" "snd ?c" "fst (last (exchanges (snd ?c)))"]
    by (simp add: eval_defs)
  moreover have "fst ?d = Inl (Error (''GitHub API error: '' @ statusText server_error))"
    using t [THEN conjunct2, THEN conjunct2, THEN conjunct2, rule_format,
        of "fst ?d" "snd ?d" "fst (last (exchanges (snd ?d)))"]
    by (simp add: eval_defs)
  ultimately show ?thesis using n by (simp add: server_error_def respond_def)
qed

subsection \<open>Single-File Writer\<close>

text \<open>
  C4, as stated, fails: a sha that is supplied as the empty string counts as not
  supplied, and the lookup is made.
\<close>

theorem createOrUpdateFile_empty_sha_counterexample:
  "map (\<lambda>x. rq_method (fst x))
     (exchanges (snd (createOrUpdateFile file_remote ''o'' ''r'' ''f'' [104, 105] ''msg'' ''main''
        (Some []) (start None)))) = [GET, PUT]"
  by (simp add: eval_defs)

text \<open>
  C4, amended. When the sha argument is a non-empty string, \<^verbatim>\<open>createOrUpdateFile\<close> makes
  no lookup: its one call is the \<^verbatim>\<open>PUT\<close>, with that sha as token. When the sha argument
  is absent or empty, it first calls \<^verbatim>\<open>getFileContents\<close> at the path and the branch (one
  \<^verbatim>\<open>GET\<close>), and then sends the \<^verbatim>\<open>PUT\<close> whatever the lookup gave: with the sha of the file
  as token if the lookup returned a single file (with a non-empty sha), and with no
  token if it returned a directory listing or failed for any reason.
\<close>

theorem createOrUpdateFile_token:
  assumes run: "createOrUpdateFile api owner repo path content message branch sha w = (res, w')"
  shows "(truthy sha \<longrightarrow>
            (\<exists>out. exchanges w' = exchanges w @
               [(\<lparr>rq_method = PUT, rq_url = repo_url owner repo @ ''/contents/'' @ path,
                  rq_body = Some (FileBody message (base64_encode (utf8_encode content)) branch sha)\<rparr>,
                 out)]))
       \<and> (\<not> truthy sha \<longrightarrow>
            (\<exists>look w1 q got out.
               getFileContents api owner repo path (Some branch) w = (look, w1)
             \<and> exchanges w1 = exchanges w @ [(q, got)] \<and> rq_method q = GET
             \<and> rq_url q = repo_url owner repo @ ''/contents/'' @ path @
                 (if branch = [] then [] else ''?ref='' @ branch)
             \<and> exchanges w' = exchanges w1 @
               [(\<lparr>rq_method = PUT, rq_url = repo_url owner repo @ ''/contents/'' @ path,
                  rq_body = Some (FileBody message (base64_encode (utf8_encode content)) branch
                              (write_token look))\<rparr>,
                 out)]))"
proof (intro conjI impI)
  assume t: "truthy sha"
  obtain out s' where "api \<lparr>rq_method = PUT, rq_url = repo_url owner repo @ ''/contents/'' @ path,
       rq_body = Some (FileBody message (base64_encode (utf8_encode content)) branch sha)\<rparr> (store w)
     = (out, s')"
    by (metis prod.collapse)
  with run t show "\<exists>out. exchanges w' = exchanges w @
               [(\<lparr>rq_method = PUT, rq_url = repo_url owner repo @ ''/contents/'' @ path,
                  rq_body = Some (FileBody message (base64_encode (utf8_encode content)) branch sha)\<rparr>,
                 out)]"
    by (cases out) (auto simp: createOrUpdateFile_def Let_def fetch_def split: if_splits)
next
  assume f: "\<not> truthy sha"
  obtain look w1 where l: "getFileContents api owner repo path (Some branch) w = (look, w1)"
    by (metis prod.collapse)
  from getFileContents_one_request [OF l] obtain q got where
    q: "exchanges w1 = exchanges w @ [(q, got)]" "rq_method q = GET"
       "rq_url q = repo_url owner repo @ ''/contents/'' @ path @
                 (if branch = [] then [] else ''?ref='' @ branch)"
    by auto
  let ?put = "\<lparr>rq_method = PUT, rq_url = repo_url owner repo @ ''/contents/'' @ path,
                  rq_body = Some (FileBody message (base64_encode (utf8_encode content)) branch
                              (write_token look))\<rparr>"
  obtain out s' where p: "api ?put (store w1) = (out, s')"
    by (metis prod.collapse)
  have "exchanges w' = exchanges w1 @ [(?put, out)]"
    using run f l p
    by (cases out)
       (auto simp: createOrUpdateFile_def Let_def fetch_def write_token_def truthy_def
        split: if_splits sum.splits GitHubContent.splits option.splits)
  with l q show "\<exists>look w1 q got out.
               getFileContents api owner repo path (Some branch) w = (look, w1)
             \<and> exchanges w1 = exchanges w @ [(q, got)] \<and> rq_method q = GET
             \<and> rq_url q = repo_url owner repo @ ''/contents/'' @ path @
                 (if branch = [] then [] else ''?ref='' @ branch)
             \<and> exchanges w' = exchanges w1 @
               [(\<lparr>rq_method = PUT, rq_url = repo_url owner repo @ ''/contents/'' @ path,
                  rq_body = Some (FileBody message (base64_encode (utf8_encode content)) branch
                              (write_token look))\<rparr>,
                 out)]"
    by blast
qed

text \<open>A write with a sha, and a write without one over a file that exists.\<close>

theorem createOrUpdateFile_token_witness:
  "(\<exists>res w' out.
      createOrUpdateFile file_remote ''o'' ''r'' ''f'' [104, 105] ''msg'' ''main'' (Some ''f0'')
        (start (Some (''f0'', []))) = (res, w')
    \<and> truthy (Some ''f0'')
    \<and> exchanges w' = [(put_request ''o'' ''r'' ''f'' [104, 105] ''msg'' ''main'' (Some ''f0''), out)])
 \<and> (\<exists>res w' look w1 q got out.
      createOrUpdateFile file_remote ''o'' ''r'' ''f'' [104, 105] ''msg'' ''main'' None
        (start (Some (''f0'', []))) = (res, w')
    \<and> \<not> truthy (None :: string option)
    \<and> getFileContents file_remote ''o'' ''r'' ''f'' (Some ''main'') (start (Some (''f0'', [])))
        = (look, w1)
    \<and> write_token look = Some ''f0''
    \<and> rq_method q = GET
    \<and> exchanges w' =
        [(q, got), (put_request ''o'' ''r'' ''f'' [104, 105] ''msg'' ''main'' (Some ''f0''), out)])"
proof -
  let ?w = "start (Some (''f0'', [] :: jsstring))"
  obtain res w' where
    run: "createOrUpdateFile file_remote ''o'' ''r'' ''f'' [104, 105] ''msg'' ''main'' (Some ''f0'') ?w
          = (res, w')"
    by (metis prod.collapse)
  have t: "truthy (Some ''f0'')" by (simp add: truthy_def)
  from createOrUpdateFile_token [OF run] t obtain out where
    "exchanges w' = exchanges ?w @
       [(put_request ''o'' ''r'' ''f'' [104, 105] ''msg'' ''main'' (Some ''f0''), out)]"
    unfolding put_request_def by blast
  with run t have A: "\<exists>res w' out.
      createOrUpdateFile file_remote ''o'' ''r'' ''f'' [104, 105] ''msg'' ''main'' (Some ''f0'') ?w
        = (res, w')
    \<and> truthy (Some ''f0'')
    \<and> exchanges w' = [(put_request ''o'' ''r'' ''f'' [104, 105] ''msg'' ''main'' (Some ''f0''), out)]"
    by (simp add: start_def)
  obtain res2 w2 where
    run2: "createOrUpdateFile file_remote ''o'' ''r'' ''f'' [104, 105] ''msg'' ''main'' None ?w
          = (res2, w2)"
    by (metis prod.collapse)
  have f: "\<not> truthy (None :: string option)" by (simp add: truthy_def)
  from createOrUpdateFile_token [OF run2] f obtain look w1 q got out2 where
    l: "getFileContents file_remote ''o'' ''r'' ''f'' (Some ''main'') ?w = (look, w1)"
      "exchanges w1 = exchanges ?w @ [(q, got)]" "rq_method q = GET"
      "exchanges w2 = exchanges w1 @
         [(put_request ''o'' ''r'' ''f'' [104, 105] ''msg'' ''main'' (write_token look), out2)]"
    unfolding put_request_def by blast
  have "fst (getFileContents file_remote ''o'' ''r'' ''f'' (Some ''main'') ?w)
        = Inr (File \<lparr>fc_name = ''f'', fc_path = ''f'', fc_sha = ''f0'', fc_content = []\<rparr>)"
    by (simp add: eval_defs)
  with l(1) have "write_token look = Some ''f0''"
    by (simp add: write_token_def)
  with run2 f l have B: "\<exists>res w' look w1 q got out.
      createOrUpdateFile file_remote ''o'' ''r'' ''f'' [104, 105] ''msg'' ''main'' None ?w = (res, w')
    \<and> \<not> truthy (None :: string option)
    \<and> getFileContents file_remote ''o'' ''r'' ''f'' (Some ''main'') ?w = (look, w1)
    \<and> write_token look = Some ''f0''
    \<and> rq_method q = GET
    \<and> exchanges w' =
        [(q, got), (put_request ''o'' ''r'' ''f'' [104, 105] ''msg'' ''main'' (Some ''f0''), out)]"
    by (simp add: start_def)
  from A B show ?thesis by blast
qed

subsection \<open>Content Fetcher\<close>




subsection \<open>Gist search\<close>









subsection \<open>Text encodings\<close>

lemma unbase64_b64chr:
  assumes "n < 64"
  shows "unbase64 (b64chr n) = Some n" "b64chr n \<noteq> 61" "b64chr n < 123"
  using assms by (auto simp: unbase64_def b64chr_def)

lemma sextets_Cons:
  assumes "unbase64 c = Some v" "c \<noteq> 61"
  shows "sextets (c # s) = v # sextets s"
  using assms by (simp add: sextets_def List.map_filter_def)

lemma sextets_chr:
  assumes "n < 64"
  shows "sextets (b64chr n # s) = n # sextets s"
  using unbase64_b64chr [OF assms] by (simp add: sextets_Cons)

lemma sextets_pad: "sextets (61 # s) = []"
  by (simp add: sextets_def List.map_filter_def)

lemma pack_div:
  fixes x y k :: nat
  assumes "y < k"
  shows "(x * k + y) div k = x" "(x * k + y) mod k = y"
  using assms by simp_all

lemma byte_parts:
  fixes a :: nat
  assumes "a < 256"
  shows "a div 4 < 64" "a div 16 < 16" "a div 64 < 4" "a mod 4 < 4" "a mod 16 < 16" "a mod 64 < 64"
  using assms by simp_all

lemma sextet_bounds:
  fixes a b c :: nat
  assumes "a < 256" "b < 256" "c < 256"
  shows "a div 4 < 64" "a mod 4 * 16 + b div 16 < 64" "b mod 16 * 4 + c div 64 < 64"
    "c mod 64 < 64" "b mod 16 * 4 < 64" "a mod 4 * 16 < 64"
proof -
  note pa = byte_parts [OF assms(1)] and pb = byte_parts [OF assms(2)]
    and pc = byte_parts [OF assms(3)]
  show "a div 4 < 64" by (rule pa)
  show "c mod 64 < 64" by (rule pc)
  from pa(4) pb(2) show "a mod 4 * 16 + b div 16 < 64" by linarith
  from pb(5) pc(3) show "b mod 16 * 4 + c div 64 < 64" by linarith
  from pb(5) show "b mod 16 * 4 < 64" by linarith
  from pa(4) show "a mod 4 * 16 < 64" by linarith
qed

lemma sextet_values:
  fixes a b c :: nat
  assumes "a < 256" "b < 256" "c < 256"
  shows "a div 4 * 4 + (a mod 4 * 16 + b div 16) div 16 = a"
    "(a mod 4 * 16 + b div 16) mod 16 * 16 + (b mod 16 * 4 + c div 64) div 4 = b"
    "(b mod 16 * 4 + c div 64) mod 4 * 64 + c mod 64 = c"
    "(a mod 4 * 16 + b div 16) mod 16 * 16 + (b mod 16 * 4) div 4 = b"
    "a div 4 * 4 + (a mod 4 * 16) div 16 = a"
proof -
  note pb = byte_parts [OF assms(2)] and pc = byte_parts [OF assms(3)]
  have e1: "(a mod 4 * 16 + b div 16) div 16 = a mod 4"
    "(a mod 4 * 16 + b div 16) mod 16 = b div 16"
    using pack_div [OF pb(2), of "a mod 4"] by simp_all
  have e2: "(b mod 16 * 4 + c div 64) div 4 = b mod 16"
    "(b mod 16 * 4 + c div 64) mod 4 = c div 64"
    using pack_div [OF pc(3), of "b mod 16"] by simp_all
  show "a div 4 * 4 + (a mod 4 * 16 + b div 16) div 16 = a"
    by (simp add: e1)
  show "(a mod 4 * 16 + b div 16) mod 16 * 16 + (b mod 16 * 4 + c div 64) div 4 = b"
    using pb pc by (simp add: e1 e2)
  show "(b mod 16 * 4 + c div 64) mod 4 * 64 + c mod 64 = c"
    using pb pc by (simp add: e2)
  show "(a mod 4 * 16 + b div 16) mod 16 * 16 + (b mod 16 * 4) div 4 = b"
    using pb pc by (simp add: e1)
  show "a div 4 * 4 + (a mod 4 * 16) div 16 = a"
    by simp
qed

lemma b64_roundtrip_nat:
  assumes "\<forall>b \<in> set bs. b < 256"
  shows "from_sextets (sextets (b64_groups bs)) = bs"
  using assms
proof (induction bs rule: b64_groups.induct)
  case (1 a b c r)
  then have lt: "a < 256" "b < 256" "c < 256" by simp_all
  note s = sextet_bounds [OF lt] and v = sextet_values [OF lt]
  from 1 have "from_sextets (sextets (b64_groups r)) = r" by simp
  with s v show ?case by (simp add: sextets_chr)
next
  case (2 a b)
  then have lt: "a < 256" "b < 256" by simp_all
  note s = sextet_bounds [OF lt lt(2)] and v = sextet_values [OF lt lt(2)]
  from s v show ?case by (simp add: sextets_chr sextets_pad)
next
  case (3 a)
  then have lt: "a < 256" by simp
  note s = sextet_bounds [OF lt lt lt] and v = sextet_values [OF lt lt lt]
  from s v show ?case by (simp add: sextets_chr sextets_pad)
next
  case 4
  show ?case by (simp add: sextets_def List.map_filter_def)
qed

lemma b64_groups_chars: "\<forall>b \<in> set bs. b < 256 \<Longrightarrow> \<forall>c \<in> set (b64_groups bs). c < 123"
proof (induction bs rule: b64_groups.induct)
  case (1 a b c r)
  then have lt: "a < 256" "b < 256" "c < 256" by simp_all
  note s = sextet_bounds [OF lt]
  from 1 have "\<forall>c \<in> set (b64_groups r). c < 123" by simp
  with s [THEN unbase64_b64chr(3)] show ?case by simp
next
  case (2 a b)
  then have lt: "a < 256" "b < 256" by simp_all
  note s = sextet_bounds [OF lt lt(2)]
  from s [THEN unbase64_b64chr(3)] show ?case by simp
next
  case (3 a)
  then have lt: "a < 256" by simp
  note s = sextet_bounds [OF lt lt lt]
  from s [THEN unbase64_b64chr(3)] show ?case by simp
next
  case 4
  show ?case by simp
qed

lemma dec1: "b < 128 \<Longrightarrow> utf8_cps (b # rest) = b # utf8_cps rest"
  by simp

lemma dec2:
  assumes "2 \<le> d" "d < 32" "m < 64"
  shows "utf8_cps ((192 + d) # (128 + m) # rest) = (d * 64 + m) # utf8_cps rest"
  using assms by (simp add: continuation_def)

lemma dec3:
  assumes "d < 16" "m1 < 64" "m2 < 64" "d = 0 \<longrightarrow> 32 \<le> m1" "d = 13 \<longrightarrow> m1 < 32"
  shows "utf8_cps ((224 + d) # (128 + m1) # (128 + m2) # rest)
         = (d * 4096 + m1 * 64 + m2) # utf8_cps rest"
  using assms by (auto simp: continuation_def lower_bound_def upper_bound_def)

lemma dec4:
  assumes "d \<le> 4" "m1 < 64" "m2 < 64" "m3 < 64" "d = 0 \<longrightarrow> 16 \<le> m1" "d = 4 \<longrightarrow> m1 < 16"
  shows "utf8_cps ((240 + d) # (128 + m1) # (128 + m2) # (128 + m3) # rest)
         = (d * 262144 + m1 * 4096 + m2 * 64 + m3) # utf8_cps rest"
  using assms by (auto simp: continuation_def lower_bound_def upper_bound_def)

lemma mid6: "(cp::nat) div 64 mod 64 = cp mod 4096 div 64"
  using mod_mult2_eq [of cp 64 64] by simp

lemma mid12: "(cp::nat) div 4096 mod 64 = cp mod 262144 div 4096"
  using mod_mult2_eq [of cp 4096 64] by simp

lemma split3:
  fixes cp :: nat
  shows "cp div 4096 * 4096 + cp div 64 mod 64 * 64 + cp mod 64 = cp"
proof -
  have "cp mod 4096 = 64 * (cp div 64 mod 64) + cp mod 64"
    using mod_mult2_eq [of cp 64 64] by simp
  with div_mult_mod_eq [of cp 4096] show ?thesis by linarith
qed

lemma split4:
  fixes cp :: nat
  shows "cp div 262144 * 262144 + cp div 4096 mod 64 * 4096 + cp div 64 mod 64 * 64
         + cp mod 64 = cp"
proof -
  have "cp mod 262144 = 4096 * (cp div 4096 mod 64) + cp mod 4096"
    using mod_mult2_eq [of cp 4096 64] by simp
  moreover have "cp mod 4096 = 64 * (cp div 64 mod 64) + cp mod 64"
    using mod_mult2_eq [of cp 64 64] by simp
  ultimately show ?thesis using div_mult_mod_eq [of cp 262144] by linarith
qed

lemma utf8_cps_bytes:
  assumes "scalar cp"
  shows "utf8_cps (utf8_bytes cp @ rest) = cp # utf8_cps rest"
proof -
  consider (one) "cp < 0x80" | (two) "0x80 \<le> cp" "cp < 0x800"
    | (three) "0x800 \<le> cp" "cp < 0x10000" | (four) "0x10000 \<le> cp"
    by linarith
  then show ?thesis
  proof cases
    case one
    then show ?thesis by (simp add: utf8_bytes_def)
  next
    case two
    have "2 \<le> cp div 64" "cp div 64 < 32" "cp mod 64 < 64" "cp div 64 * 64 + cp mod 64 = cp"
      using two by simp_all
    from dec2 [OF this(1,2,3), of rest] this(4) two show ?thesis
      by (simp add: utf8_bytes_def del: utf8_cps.simps)
  next
    case three
    have s: "\<not> (0xD800 \<le> cp \<and> cp \<le> 0xDFFF)"
      using assms by (simp add: scalar_def)
    have a: "cp div 4096 < 16" "cp div 64 mod 64 < 64" "cp mod 64 < 64"
      using three by simp_all
    note d = split3 [of cp]
    have b: "cp div 4096 = 0 \<longrightarrow> 32 \<le> cp div 64 mod 64"
      using three d a by linarith
    have c: "cp div 4096 = 13 \<longrightarrow> cp div 64 mod 64 < 32"
      using s d a by linarith
    from dec3 [OF a b c, of rest] d three show ?thesis
      by (simp add: utf8_bytes_def del: utf8_cps.simps)
  next
    case four
    have s: "cp < 0x110000"
      using assms by (simp add: scalar_def)
    have a: "cp div 262144 \<le> 4" "cp div 4096 mod 64 < 64" "cp div 64 mod 64 < 64" "cp mod 64 < 64"
      using s by simp_all
    note d = split4 [of cp]
    have b: "cp div 262144 = 0 \<longrightarrow> 16 \<le> cp div 4096 mod 64"
      using four d a by linarith
    have c: "cp div 262144 = 4 \<longrightarrow> cp div 4096 mod 64 < 16"
      using s d a by linarith
    from dec4 [OF a b c, of rest] d four show ?thesis
      by (simp add: utf8_bytes_def del: utf8_cps.simps)
  qed
qed

lemma utf8_roundtrip_nat:
  assumes "\<forall>cp \<in> set cps. scalar cp"
  shows "utf8_cps (concat (map utf8_bytes cps)) = cps"
  using assms by (induction cps) (simp_all add: utf8_cps_bytes del: utf8_cps.simps(2))

lemma utf8_bytes_range:
  assumes "scalar cp"
  shows "\<forall>b \<in> set (utf8_bytes cp). b < 256"
proof -
  have "cp < 0x110000" using assms by (simp add: scalar_def)
  then have "cp div 262144 \<le> 4" "cp mod 64 < 64" "cp div 64 mod 64 < 64"
    "cp div 4096 mod 64 < 64"
    by simp_all
  moreover have "cp < 0x800 \<Longrightarrow> cp div 64 < 32" "cp < 0x10000 \<Longrightarrow> cp div 4096 < 16"
    by simp_all
  ultimately show ?thesis
    by (auto simp: utf8_bytes_def)
qed

lemma surrogate_pair:
  assumes "is_high u" "is_low v"
  shows "utf16_units (0x10000 + (u - 0xD800) * 0x400 + (v - 0xDC00)) = [u, v]"
    "scalar (0x10000 + (u - 0xD800) * 0x400 + (v - 0xDC00))"
proof -
  obtain h l where h: "u = 0xD800 + h" "h < 0x400" and l: "v = 0xDC00 + l" "l < 0x400"
  proof
    show "u = 0xD800 + (u - 0xD800)" "u - 0xD800 < 0x400"
      "v = 0xDC00 + (v - 0xDC00)" "v - 0xDC00 < 0x400"
      using assms by (auto simp: is_high_def is_low_def)
  qed
  have "(h * 0x400 + l) div 0x400 = h" "(h * 0x400 + l) mod 0x400 = l"
    using l(2) by simp_all
  then show "utf16_units (0x10000 + (u - 0xD800) * 0x400 + (v - 0xDC00)) = [u, v]"
    by (simp add: utf16_units_def h l)
  have "h * 0x400 + l < 0x100000"
    using h(2) l(2) by linarith
  then show "scalar (0x10000 + (u - 0xD800) * 0x400 + (v - 0xDC00))"
    by (simp add: scalar_def h l)
qed

lemma utf16_roundtrip_nat:
  assumes "paired us" "\<forall>u \<in> set us. u < 65536"
  shows "concat (map utf16_units (code_points us)) = us \<and> (\<forall>cp \<in> set (code_points us). scalar cp)"
  using assms
proof (induction us rule: code_points.induct)
  case 1
  show ?case by simp
next
  case (2 u)
  then show ?case
    by (auto simp: utf16_units_def scalar_def is_high_def is_low_def)
next
  case (3 u v us)
  show ?case
  proof (cases "is_high u")
    case True
    with 3 have lo: "is_low v" and p: "paired us" and r: "\<forall>u \<in> set us. u < 65536"
      by simp_all
    from 3(1) True lo p r
    have ih: "concat (map utf16_units (code_points us)) = us
              \<and> (\<forall>cp \<in> set (code_points us). scalar cp)"
      by simp
    from surrogate_pair [OF True lo] ih True lo show ?thesis
      by simp
  next
    case False
    with 3 have nl: "\<not> is_low u" and p: "paired (v # us)"
      and r: "\<forall>u \<in> set (v # us). u < 65536" and lt: "u < 65536"
      by simp_all
    from 3(2) False p r
    have ih: "concat (map utf16_units (code_points (v # us))) = v # us
              \<and> (\<forall>cp \<in> set (code_points (v # us)). scalar cp)"
      by simp
    have "utf16_units u = [u]" "scalar u"
      using False nl lt by (auto simp: utf16_units_def scalar_def is_high_def is_low_def)
    with ih False nl show ?thesis
      by simp
  qed
qed

lemma map_unat_byte:
  assumes "\<forall>b \<in> set bs. b < 256"
  shows "map unat (map of_nat bs :: 8 word list) = bs"
  using assms by (induction bs) (simp_all add: unat_of_nat)

lemma map_unat_unit:
  assumes "\<forall>b \<in> set bs. b < 65536"
  shows "map unat (map of_nat bs :: 16 word list) = bs"
  using assms by (induction bs) (simp_all add: unat_of_nat)

lemma unat_byte_range: "\<forall>b \<in> set (map unat (bs :: 8 word list)). b < 256"
proof -
  have "unat w < 256" for w :: "8 word"
    using unsigned_less [of w] by simp
  then show ?thesis by simp
qed

lemma unat_unit_range: "\<forall>u \<in> set (map unat (s :: 16 word list)). u < 65536"
proof -
  have "unat w < 65536" for w :: "16 word"
    using unsigned_less [of w] by simp
  then show ?thesis by simp
qed

lemma base64_roundtrip: "base64_decode (base64_encode bs) = bs"
proof -
  let ?n = "map unat bs"
  have c: "\<forall>c \<in> set (b64_groups ?n). c < 65536"
    using b64_groups_chars [OF unat_byte_range [of bs]] by fastforce
  have "base64_decode (base64_encode bs) = map of_nat (from_sextets (sextets (b64_groups ?n)))"
    by (simp add: base64_decode_def base64_encode_def map_unat_unit [OF c] del: map_map)
  also have "\<dots> = map of_nat ?n"
    by (simp add: b64_roundtrip_nat [OF unat_byte_range])
  also have "\<dots> = bs"
    by (simp add: map_idI)
  finally show ?thesis .
qed

lemma utf8_roundtrip:
  assumes "well_formed s"
  shows "utf8_decode (utf8_encode s) = s"
proof -
  let ?u = "map unat s"
  let ?cps = "code_points ?u"
  from assms have p: "paired ?u" by (simp add: well_formed_def)
  note r = utf16_roundtrip_nat [OF p unat_unit_range]
  have b: "\<forall>b \<in> set (concat (map utf8_bytes ?cps)). b < 256"
    using r utf8_bytes_range by auto
  have "utf8_decode (utf8_encode s)
        = map of_nat (concat (map utf16_units (utf8_cps (concat (map utf8_bytes ?cps)))))"
    by (simp add: utf8_decode_def utf8_encode_def map_unat_byte [OF b] del: map_map)
  also have "\<dots> = map of_nat (concat (map utf16_units ?cps))"
    using r by (simp add: utf8_roundtrip_nat)
  also have "\<dots> = map of_nat ?u"
    using r by simp
  also have "\<dots> = s"
    by (simp add: map_idI)
  finally show ?thesis .
qed

lemma sextets_skip:
  assumes "unbase64 c = None" "c \<noteq> 61"
  shows "sextets (c # s) = sextets s"
  using assms by (simp add: sextets_def List.map_filter_def)

lemma sextets_breaks: "sextets (filter (\<lambda>c. c \<noteq> 10) s) = sextets s"
proof (induction s)
  case Nil
  show ?case by simp
next
  case (Cons c s)
  have n: "unbase64 10 = None" by (simp add: unbase64_def)
  show ?case
  proof (cases "c = 10")
    case True
    with Cons n show ?thesis by (simp add: sextets_skip)
  next
    case False
    show ?thesis
    proof (cases "c = 61")
      case True
      with False show ?thesis by (simp add: sextets_pad)
    next
      case ne: False
      show ?thesis
      proof (cases "unbase64 c")
        case None
        with False ne Cons show ?thesis by (simp add: sextets_skip)
      next
        case (Some v)
        with False ne Cons show ?thesis by (simp add: sextets_Cons)
      qed
    qed
  qed
qed

lemma unat_filter_breaks:
  "map unat (filter (\<lambda>u. u \<noteq> 10) (s :: 16 word list)) = filter (\<lambda>c. c \<noteq> 10) (map unat s)"
proof (induction s)
  case Nil
  show ?case by simp
next
  case (Cons u s)
  have "(unat u = 10) = (u = 10)"
    using word_unat_eq_iff [of u 10] by simp
  with Cons show ?case by simp
qed

lemma base64_decode_breaks:
  "base64_decode (filter (\<lambda>u. u \<noteq> 10) s) = base64_decode s"
  by (simp add: base64_decode_def sextets_breaks unat_filter_breaks)

lemma createOrUpdateFile_sends:
  assumes "createOrUpdateFile api owner repo path content message branch sha w = (res, w')"
  shows "\<exists>t. rq_body (fst (last (exchanges w')))
           = Some (FileBody message (base64_encode (utf8_encode content)) branch t)"
  using assms
  by (auto simp: createOrUpdateFile_def Let_def fetch_def
      split: prod.splits sum.splits if_splits GitHubContent.splits)

lemma getFileContents_file:
  assumes "getFileContents api owner repo path branch w = (Inr (File f), w')"
  shows "\<exists>r raw. snd (last (exchanges w')) = Inr r
           \<and> parse_body GitHubContentSchema r = Inr (File raw)
           \<and> fc_content f = (if fc_content raw = [] then []
                              else utf8_decode (base64_decode (fc_content raw)))"
  using assms
  by (auto simp: getFileContents_def Let_def fetch_def
      split: prod.splits sum.splits if_splits option.splits GitHubContent.splits)

text \<open>
  C9, as stated, fails: a content that is a high surrogate on its own is written as the
  bytes of U+FFFD and read back as U+FFFD.
\<close>

theorem lone_surrogate_counterexample:
  "utf8_decode (base64_decode (base64_encode (utf8_encode [0xD800]))) = [0xFFFD]
   \<and> ([0xFFFD] :: jsstring) \<noteq> [0xD800]
   \<and> fst (getFileContents file_remote ''o'' ''r'' ''f'' (Some ''main'')
         (start (store (snd (createOrUpdateFile file_remote ''o'' ''r'' ''f'' [0xD800] ''msg''
            ''main'' None (start None))))))
       = Inr (File \<lparr>fc_name = ''f'', fc_path = ''f'', fc_sha = ''f1'', fc_content = [0xFFFD]\<rparr>)"
proof -
  have enc: "base64_encode (utf8_encode [0xD800]) = [55, 55, 43, 57]"
    by (simp add: codec_defs)
  have dec: "utf8_decode (base64_decode [55, 55, 43, 57, 10]) = [0xFFFD]"
    "utf8_decode (base64_decode [55, 55, 43, 57]) = [0xFFFD]"
    by (simp_all add: codec_defs)
  show ?thesis
    by (simp add: eval_defs enc dec)
qed

text \<open>
  C9, amended. For every content with no surrogate on its own: the Single-File Writer
  sends, in the body of its \<^verbatim>\<open>PUT\<close>, the base64 text of the UTF-8 bytes of the content;
  decoding that text from base64 and then from UTF-8 gives the content back; and when
  the Content Fetcher is served a single file whose content is that text, with or
  without line breaks in it, the content of the file it returns is the content written.
\<close>

theorem write_then_read_roundtrip:
  assumes wf: "well_formed content"
    and wr: "createOrUpdateFile api owner repo path content message branch sha w = (written, w1)"
    and rd: "getFileContents api' owner' repo' path' ref w2 = (Inr (File f), w3)"
    and served: "snd (last (exchanges w3)) = Inr r"
      "parse_body GitHubContentSchema r = Inr (File raw)"
    and same: "filter (\<lambda>u. u \<noteq> 10) (fc_content raw) = base64_encode (utf8_encode content)"
  shows "(\<exists>t. rq_body (fst (last (exchanges w1)))
              = Some (FileBody message (base64_encode (utf8_encode content)) branch t))
       \<and> utf8_decode (base64_decode (base64_encode (utf8_encode content))) = content
       \<and> fc_content f = content"
proof -
  have rt: "utf8_decode (base64_decode (base64_encode (utf8_encode content))) = content"
    using wf by (simp add: base64_roundtrip utf8_roundtrip)
  from getFileContents_file [OF rd] served obtain
    d: "fc_content f = (if fc_content raw = [] then []
                        else utf8_decode (base64_decode (fc_content raw)))"
    by auto
  have "base64_decode (fc_content raw) = base64_decode (base64_encode (utf8_encode content))"
    using base64_decode_breaks [of "fc_content raw"] same by simp
  then have e: "utf8_decode (base64_decode (fc_content raw)) = content"
    using rt by simp
  have "fc_content f = content"
  proof (cases "fc_content raw = []")
    case True
    then have "utf8_decode (base64_decode []) = content" using e by simp
    then have "content = []"
      by (simp add: utf8_decode_def base64_decode_def sextets_def List.map_filter_def)
    with d True show ?thesis by simp
  next
    case False
    with d e show ?thesis by simp
  qed
  with rt createOrUpdateFile_sends [OF wr] show ?thesis by blast
qed

text \<open>A write of the example text to the one-file remote, and a read after it.\<close>

theorem write_then_read_roundtrip_witness:
  "\<exists>written w1 f w3 r raw.
     well_formed demo_text
   \<and> createOrUpdateFile file_remote ''o'' ''r'' ''f'' demo_text ''msg'' ''main'' None (start None)
       = (written, w1)
   \<and> getFileContents file_remote ''o'' ''r'' ''f'' (Some ''main'') (start (store w1))
       = (Inr (File f), w3)
   \<and> snd (last (exchanges w3)) = Inr r
   \<and> parse_body GitHubContentSchema r = Inr (File raw)
   \<and> filter (\<lambda>u. u \<noteq> 10) (fc_content raw) = base64_encode (utf8_encode demo_text)
   \<and> fc_content f = demo_text"
proof -
  let ?put = "createOrUpdateFile file_remote ''o'' ''r'' ''f'' demo_text ''msg'' ''main'' None
                  (start None)"
  have wf: "well_formed demo_text"
    by (simp add: well_formed_def demo_text_def is_high_def is_low_def)
  have enc: "base64_encode (utf8_encode demo_text) = [56, 74, 43, 89, 103, 77, 79, 112]"
    by (simp add: codec_defs demo_text_def)
  have st: "store (snd ?put) = Some (''f1'', [56, 74, 43, 89, 103, 77, 79, 112])"
    by (simp add: eval_defs enc)
  let ?get = "getFileContents file_remote ''o'' ''r'' ''f'' (Some ''main'') (start (store (snd ?put)))"
  let ?raw = "\<lparr>fc_name = ''f'', fc_path = ''f'', fc_sha = ''f1'',
               fc_content = [56, 74, 43, 89, 103, 77, 79, 112, 10] :: jsstring\<rparr>"
  have ev: "\<exists>f. fst ?get = Inr (File f)"
    "snd (last (exchanges (snd ?get))) = Inr (respond 200 ''OK'' (ContentJson (File ?raw)))"
    unfolding st by (simp_all add: eval_defs)
  then obtain f w3 where rd: "?get = (Inr (File f), w3)"
    by (metis prod.collapse)
  obtain written w1 where wr: "?put = (written, w1)"
    by (metis prod.collapse)
  from ev(2) rd have served: "snd (last (exchanges w3)) = Inr (respond 200 ''OK'' (ContentJson (File ?raw)))"
    by simp
  have parsed: "parse_body GitHubContentSchema (respond 200 ''OK'' (ContentJson (File ?raw)))
                = Inr (File ?raw)"
    by (simp add: eval_defs)
  have same: "filter (\<lambda>u. u \<noteq> 10) (fc_content ?raw) = base64_encode (utf8_encode demo_text)"
    by (simp add: enc)
  from wr rd have rd': "getFileContents file_remote ''o'' ''r'' ''f'' (Some ''main'')
      (start (store w1)) = (Inr (File f), w3)"
    by simp
  from write_then_read_roundtrip [OF wf wr rd' served parsed same]
  have "fc_content f = demo_text" by blast
  with wf wr rd' served parsed same show ?thesis by blast
qed

end
